theory Spec2Isabelle
  imports Complex_Main
begin

section \<open>JavaScript numbers\<close>

text \<open>
  The numbers of the propagation code are modelled as real numbers, with one extra value
  for \<^verbatim>\<open>NaN\<close>. Rounding to IEEE doubles and the infinities are not modelled there.
  Every operation of the propagation code that yields \<^verbatim>\<open>NaN\<close> on finite arguments
  (the square root of a negative number, the quotient \<^verbatim>\<open>0/0\<close>) is written out. The
  numbers of the spot parser are doubles; they come further below.
\<close>

datatype jsnum = NaN | Num real

fun num_map :: "(real \<Rightarrow> real) \<Rightarrow> jsnum \<Rightarrow> jsnum" where
  "num_map f NaN = NaN"
| "num_map f (Num x) = Num (f x)"

text \<open>Comparison of two numbers with \<^verbatim>\<open><\<close>: false when either is \<^verbatim>\<open>NaN\<close>.\<close>

fun js_less :: "jsnum \<Rightarrow> jsnum \<Rightarrow> bool" where
  "js_less (Num a) (Num b) = (a < b)"
| "js_less _ _ = False"

text \<open>\<^verbatim>\<open>Math.sqrt\<close>: \<^verbatim>\<open>NaN\<close> below zero.\<close>

definition js_sqrt :: "real \<Rightarrow> jsnum" where
  "js_sqrt x = (if x < 0 then NaN else Num (sqrt x))"

text \<open>
  The remainder operator \<^verbatim>\<open>%\<close> on numbers: the quotient is truncated towards zero,
  so the result has the sign of the dividend. Its only use has the divisor 24.
\<close>

definition js_trunc :: "real \<Rightarrow> int" where
  "js_trunc x = (if 0 \<le> x then \<lfloor>x\<rfloor> else \<lceil>x\<rceil>)"

definition js_rem :: "real \<Rightarrow> real \<Rightarrow> real" where
  "js_rem x y = x - y * of_int (js_trunc (x / y))"

text \<open>\<^verbatim>\<open>Math.round\<close>: the nearest integer, a tie going up.\<close>

definition js_round :: "real \<Rightarrow> int" where
  "js_round x = \<lfloor>x + 1 / 2\<rfloor>"

section \<open>The propagation estimator\<close>

record coord =
  lat :: real
  lon :: real

text \<open>\<^verbatim>\<open>isDaytime(utcHour, longitude)\<close>\<close>

definition isDaytime :: "real \<Rightarrow> real \<Rightarrow> bool" where
  "isDaytime utcHour longitude =
     (let localHour = js_rem (utcHour + longitude / 15 + 24) 24
      in localHour \<ge> 6 \<and> localHour \<le> 18)"

text \<open>
  The local constants of \<^verbatim>\<open>calculateBandReliability\<close>, one definition each, in the
  order of the source.
\<close>

definition hourFactor :: "real \<Rightarrow> real" where
  "hourFactor hour = 1 + 0.4 * cos ((hour - 12) * pi / 12)"

definition foF2 :: "real \<Rightarrow> real \<Rightarrow> jsnum" where
  "foF2 ssn hour = num_map (\<lambda>s. 0.9 * s * hourFactor hour) (js_sqrt (ssn + 15))"

definition distFactor :: "real \<Rightarrow> jsnum" where
  "distFactor distance = js_sqrt (1 + distance / 3500)"

definition latFactor :: "real \<Rightarrow> real" where
  "latFactor midLat = 1 - \<bar>midLat\<bar> / 200"

definition muf :: "real \<Rightarrow> real \<Rightarrow> real \<Rightarrow> real \<Rightarrow> jsnum" where
  "muf ssn hour distance midLat =
     (case (foF2 ssn hour, distFactor distance) of
        (Num f, Num d) \<Rightarrow> Num (f * d * latFactor midLat * 3.5)
      | _ \<Rightarrow> NaN)"

definition dayNight :: "real \<Rightarrow> coord \<Rightarrow> coord \<Rightarrow> real" where
  "dayNight hour de dx = (if isDaytime hour ((lon de + lon dx) / 2) then 1.5 else 0.5)"

definition luf :: "real \<Rightarrow> real \<Rightarrow> real \<Rightarrow> coord \<Rightarrow> coord \<Rightarrow> real" where
  "luf sfi kIndex hour de dx = 2 + (sfi / 100) * dayNight hour de dx + kIndex * 0.5"

text \<open>
  The three-way branch on the frequency. A comparison with \<^verbatim>\<open>NaN\<close> is false, so a
  \<^verbatim>\<open>NaN\<close> MUF falls through to the test against the LUF. In the last branch the
  quotient has the divisor \<open>m - l\<close>; there \<open>l \<le> freq \<le> m\<close>, so a zero divisor
  comes with a zero dividend and the quotient is \<^verbatim>\<open>NaN\<close>.
\<close>

definition baseReliability :: "real \<Rightarrow> jsnum \<Rightarrow> real \<Rightarrow> jsnum" where
  "baseReliability freq mf l =
     (case mf of
        NaN \<Rightarrow> if freq < l then Num (max 0 (50 - (l - freq) * 15)) else NaN
      | Num m \<Rightarrow>
          if freq > m then Num (max 0 (50 - (freq - m) * 10))
          else if freq < l then Num (max 0 (50 - (l - freq) * 15))
          else
            (let midFreq = (m + l) / 2
             in if m - l = 0 then NaN
                else Num (50 + (1 - \<bar>freq - midFreq\<bar> / (m - l)) * 45)))"

definition kDegradation :: "real \<Rightarrow> real \<Rightarrow> real" where
  "kDegradation kIndex r =
     (if kIndex \<ge> 5 then r * 0.3
      else if kIndex \<ge> 4 then r * 0.6
      else if kIndex \<ge> 3 then r * 0.8
      else r)"

definition distanceAdjustment :: "real \<Rightarrow> real \<Rightarrow> real" where
  "distanceAdjustment distance r =
     (if distance > 15000 then r * 0.7
      else if distance > 10000 then r * 0.85
      else r)"

definition highBand :: "real \<Rightarrow> real \<Rightarrow> real \<Rightarrow> real" where
  "highBand freq sfi r =
     (let r1 = (if freq \<ge> 21 \<and> sfi < 100 then r * (sfi / 100) else r)
      in if freq \<ge> 28 \<and> sfi < 120 then r1 * (sfi / 120) else r1)"

definition finish :: "real \<Rightarrow> real \<Rightarrow> real \<Rightarrow> real \<Rightarrow> jsnum \<Rightarrow> jsnum" where
  "finish freq distance sfi kIndex b =
     num_map (\<lambda>r. min 99 (max 0 (highBand freq sfi (distanceAdjustment distance (kDegradation kIndex r))))) b"

definition calculateBandReliability ::
  "real \<Rightarrow> real \<Rightarrow> real \<Rightarrow> real \<Rightarrow> real \<Rightarrow> real \<Rightarrow> real \<Rightarrow> coord \<Rightarrow> coord \<Rightarrow> jsnum" where
  "calculateBandReliability freq distance midLat hour sfi ssn kIndex de dx =
     finish freq distance sfi kIndex
       (baseReliability freq (muf ssn hour distance midLat) (luf sfi kIndex hour de dx))"

section \<open>The propagation route: hourly predictions and current bands\<close>

text \<open>\<^verbatim>\<open>Math.round\<close> and \<^verbatim>\<open>>=\<close> on a number that may be \<^verbatim>\<open>NaN\<close>.\<close>

definition js_Math_round :: "jsnum \<Rightarrow> jsnum" where
  "js_Math_round x = num_map (\<lambda>r. of_int (js_round r)) x"

fun js_ge :: "jsnum \<Rightarrow> real \<Rightarrow> bool" where
  "js_ge NaN c = False"
| "js_ge (Num x) c = (x \<ge> c)"




text \<open>\<^verbatim>\<open>calculateSNR\<close> and \<^verbatim>\<open>getStatus\<close>\<close>

definition calculateSNR :: "jsnum \<Rightarrow> string" where
  "calculateSNR reliability =
     (if js_ge reliability 80 then ''+20dB''
      else if js_ge reliability 60 then ''+10dB''
      else if js_ge reliability 40 then ''0dB''
      else if js_ge reliability 20 then ''-10dB''
      else ''-20dB'')"

definition getStatus :: "jsnum \<Rightarrow> string" where
  "getStatus reliability =
     (if js_ge reliability 70 then ''EXCELLENT''
      else if js_ge reliability 50 then ''GOOD''
      else if js_ge reliability 30 then ''FAIR''
      else if js_ge reliability 15 then ''POOR''
      else ''CLOSED'')"

definition bands :: "string list" where
  "bands = [''160m'', ''80m'', ''40m'', ''30m'', ''20m'', ''17m'', ''15m'', ''12m'', ''10m'', ''6m'']"

definition bandFreqs :: "real list" where
  "bandFreqs = [1.8, 3.5, 7, 10, 14, 18, 21, 24, 28, 50]"

text \<open>
  The objects of the response. A field selector and a variable cannot share a name, so
  the fields carry a prefix: \<open>p_\<close> for an hourly prediction, \<open>b_\<close> for an entry of
  \<^verbatim>\<open>currentBands\<close>.
\<close>

record prediction =
  p_hour :: nat
  p_reliability :: jsnum
  p_snr :: string

record bandSummary =
  b_band :: string
  b_freq :: real
  b_reliability :: jsnum
  b_snr :: string
  b_status :: string

text \<open>
  The loop \<^verbatim>\<open>for (let hour = 0; hour < 24; hour++)\<close>, pushing one entry per hour onto
  the array of the band.
\<close>

function hourLoop ::
  "real \<Rightarrow> real \<Rightarrow> real \<Rightarrow> real \<Rightarrow> real \<Rightarrow> real \<Rightarrow> coord \<Rightarrow> coord \<Rightarrow> nat \<Rightarrow> prediction list
   \<Rightarrow> prediction list" where
  "hourLoop freq distance midLat sfi ssn kIndex de dx hour acc =
     (if hour < 24 then
        (let reliability =
               calculateBandReliability freq distance midLat (real hour) sfi ssn kIndex de dx
         in hourLoop freq distance midLat sfi ssn kIndex de dx (hour + 1)
              (acc @ [\<lparr>p_hour = hour,
                       p_reliability = js_Math_round reliability,
                       p_snr = calculateSNR reliability\<rparr>]))
      else acc)"
  by pat_completeness auto
termination
  by (relation "measure (\<lambda>(freq, distance, midLat, sfi, ssn, kIndex, de, dx, hour, acc). 24 - hour)") auto

declare hourLoop.simps [simp del]

text \<open>
  \<^verbatim>\<open>bands.forEach((band, idx) => ...)\<close> fills the object \<^verbatim>\<open>predictions\<close>, here the list
  of its keys with their values, in the order of insertion.
\<close>

definition hourlyPredictions ::
  "real \<Rightarrow> real \<Rightarrow> real \<Rightarrow> real \<Rightarrow> real \<Rightarrow> coord \<Rightarrow> coord \<Rightarrow> (string \<times> prediction list) list" where
  "hourlyPredictions distance midLat sfi ssn kIndex de dx =
     map (\<lambda>idx. (bands ! idx,
                 hourLoop (bandFreqs ! idx) distance midLat sfi ssn kIndex de dx 0 []))
       [0..<length bands]"

text \<open>
  \<^verbatim>\<open>Array.prototype.sort\<close> with a comparison function: \<open>a\<close> stays before \<open>b\<close>
  unless the comparison is positive, a \<^verbatim>\<open>NaN\<close> result counts as 0, and the sort is
  stable. For a comparison function that is not consistent the language leaves the order
  to the implementation; the model then has the order of this insertion sort.
\<close>

fun js_insert :: "('a \<Rightarrow> 'a \<Rightarrow> jsnum) \<Rightarrow> 'a \<Rightarrow> 'a list \<Rightarrow> 'a list" where
  "js_insert cmp x [] = [x]"
| "js_insert cmp x (y # ys) =
     (if js_less (Num 0) (cmp x y) then y # js_insert cmp x ys else x # y # ys)"

fun js_sort :: "('a \<Rightarrow> 'a \<Rightarrow> jsnum) \<Rightarrow> 'a list \<Rightarrow> 'a list" where
  "js_sort cmp [] = []"
| "js_sort cmp (x # xs) = js_insert cmp x (js_sort cmp xs)"

text \<open>Subtraction of numbers, \<^verbatim>\<open>NaN\<close> when either is.\<close>

fun js_minus :: "jsnum \<Rightarrow> jsnum \<Rightarrow> jsnum" where
  "js_minus (Num a) (Num b) = Num (a - b)"
| "js_minus _ _ = NaN"

text \<open>
  \<^verbatim>\<open>currentBands\<close>: one summary per band from the entry of the current hour, sorted by
  \<^verbatim>\<open>(a, b) => b.reliability - a.reliability\<close>. Reading a property of a missing entry
  throws; the handler then answers with status 500, here \<open>None\<close>.
\<close>

definition bandSummaryAt ::
  "(string \<times> prediction list) list \<Rightarrow> nat \<Rightarrow> nat \<Rightarrow> bandSummary option" where
  "bandSummaryAt predictions currentHour idx =
     (case map_of predictions (bands ! idx) of
        None \<Rightarrow> None
      | Some entries \<Rightarrow>
          if currentHour < length entries then
            Some \<lparr>b_band = bands ! idx,
                  b_freq = bandFreqs ! idx,
                  b_reliability = p_reliability (entries ! currentHour),
                  b_snr = p_snr (entries ! currentHour),
                  b_status = getStatus (p_reliability (entries ! currentHour))\<rparr>
          else None)"

definition byReliability :: "bandSummary \<Rightarrow> bandSummary \<Rightarrow> jsnum" where
  "byReliability a b = js_minus (b_reliability b) (b_reliability a)"

definition currentBands ::
  "(string \<times> prediction list) list \<Rightarrow> nat \<Rightarrow> bandSummary list option" where
  "currentBands predictions currentHour =
     map_option (js_sort byReliability)
       (those (map (bandSummaryAt predictions currentHour) [0..<length bands]))"

text \<open>
  The array \<^verbatim>\<open>bands.map(...)\<close> before it is sorted, written with the estimator: the
  entries of the bands in the order of \<^verbatim>\<open>bands\<close>. It is used to state that the sort is
  stable.
\<close>

definition summaries ::
  "real \<Rightarrow> real \<Rightarrow> real \<Rightarrow> real \<Rightarrow> real \<Rightarrow> coord \<Rightarrow> coord \<Rightarrow> nat \<Rightarrow> bandSummary list" where
  "summaries distance midLat sfi ssn kIndex de dx currentHour =
     map (\<lambda>idx.
        \<lparr>b_band = bands ! idx, b_freq = bandFreqs ! idx,
         b_reliability = js_Math_round
           (calculateBandReliability (bandFreqs ! idx) distance midLat (real currentHour) sfi ssn kIndex de dx),
         b_snr = calculateSNR
           (calculateBandReliability (bandFreqs ! idx) distance midLat (real currentHour) sfi ssn kIndex de dx),
         b_status = getStatus (js_Math_round
           (calculateBandReliability (bandFreqs ! idx) distance midLat (real currentHour) sfi ssn kIndex de dx))\<rparr>)
       [0..<length bands]"

section \<open>The formulas of the specification\<close>

text \<open>
  The formulas of the specification for the same quantities, over the reals, written
  from its section on the estimator; they are compared with the code below.
\<close>

definition spec_foF2 :: "real \<Rightarrow> real \<Rightarrow> real" where
  "spec_foF2 ssn hour = 0.9 * sqrt (ssn + 15) * (1 + 0.4 * cos ((hour - 12) * pi / 12))"

definition spec_MUF :: "real \<Rightarrow> real \<Rightarrow> real \<Rightarrow> real \<Rightarrow> real" where
  "spec_MUF ssn hour distance midLatitude =
     spec_foF2 ssn hour * sqrt (1 + distance / 3500) * (1 - \<bar>midLatitude\<bar> / 200) * 3.5"

definition spec_LUF :: "real \<Rightarrow> real \<Rightarrow> real \<Rightarrow> real" where
  "spec_LUF sfi dayNightFactor kIndex = 2 + (sfi / 100) * dayNightFactor + kIndex * 0.5"

definition spec_base :: "real \<Rightarrow> real \<Rightarrow> real \<Rightarrow> real" where
  "spec_base freq MUF LUF =
     (if freq > MUF then max 0 (50 - (freq - MUF) * 10)
      else if freq < LUF then max 0 (50 - (LUF - freq) * 15)
      else 50 + (1 - \<bar>freq - (MUF + LUF) / 2\<bar> / (MUF - LUF)) * 45)"

section \<open>Strings\<close>

text \<open>
  A string is a list of characters, a character being a code unit below 256; texts with
  other code units are outside the model. The functions below are the string operations
  the routes use. White space is what \<^verbatim>\<open>trim\<close> and the number parsers skip: among
  these code units the tab, the line feed, the vertical tab, the form feed, the carriage
  return, the space and the no-break space.
\<close>

definition is_ws :: "char \<Rightarrow> bool" where
  "is_ws c =
     (c \<in> set [CHR '' '', CHR 0x09, CHR 0x0A, CHR 0x0B, CHR 0x0C, CHR 0x0D, CHR 0xA0])"

definition js_trim :: "string \<Rightarrow> string" where
  "js_trim s = rev (dropWhile is_ws (rev (dropWhile is_ws s)))"

text \<open>\<^verbatim>\<open>s.split(c)\<close> for a separator of one character.\<close>

fun js_split :: "char \<Rightarrow> string \<Rightarrow> string list" where
  "js_split c [] = [[]]"
| "js_split c (x # xs) =
     (if x = c then [] # js_split c xs
      else (case js_split c xs of
              [] \<Rightarrow> [[x]]
            | y # ys \<Rightarrow> (x # y) # ys))"

definition startsWith :: "string \<Rightarrow> string \<Rightarrow> bool" where
  "startsWith s p = (take (length p) s = p)"

text \<open>\<^verbatim>\<open>s.substring(a, b)\<close> for \<open>a \<le> b\<close>, as in all its uses.\<close>

definition substring :: "string \<Rightarrow> nat \<Rightarrow> nat \<Rightarrow> string" where
  "substring s a b = take (b - a) (drop a s)"

text \<open>Digits and their values, by their place in the string of all digits.\<close>

definition index_of :: "char \<Rightarrow> string \<Rightarrow> nat" where
  "index_of c s = length (takeWhile (\<lambda>d. d \<noteq> c) s)"

definition is_digit :: "char \<Rightarrow> bool" where
  "is_digit c = (c \<in> set ''0123456789'')"

definition digit_val :: "char \<Rightarrow> nat" where
  "digit_val c = index_of c ''0123456789''"

definition digits_val :: "string \<Rightarrow> nat" where
  "digits_val ds = foldl (\<lambda>a c. 10 * a + digit_val c) 0 ds"

definition is_hex_digit :: "char \<Rightarrow> bool" where
  "is_hex_digit c = (c \<in> set ''0123456789abcdefABCDEF'')"

definition hex_digit_val :: "char \<Rightarrow> nat" where
  "hex_digit_val c =
     (if c \<in> set ''0123456789abcdef'' then index_of c ''0123456789abcdef''
      else index_of c ''0123456789ABCDEF'')"

definition hex_digits_val :: "string \<Rightarrow> nat" where
  "hex_digits_val ds = foldl (\<lambda>a c. 16 * a + hex_digit_val c) 0 ds"

text \<open>The decimal digits of a natural number.\<close>

fun digits_of :: "nat \<Rightarrow> string" where
  "digits_of n =
     (if n < 10 then [''0123456789'' ! n]
      else digits_of (n div 10) @ [''0123456789'' ! (n mod 10)])"

declare digits_of.simps [simp del]

text \<open>
  A number of the spot parser: \<^verbatim>\<open>NaN\<close>, an infinity (with its sign, \<open>True\<close> for
  the positive one), or a finite double, given by its value. The zero has no sign.
\<close>

datatype parsed = NotANumber | Infinite bool | Finite real

text \<open>
  The double for a real number: round to nearest, a tie going to the even significand.
  The exponent \<open>e\<close> of a number \<open>x\<close> is \<open>\<lfloor>log 2 \<bar>x\<bar>\<rfloor>\<close>, the one with
  \<open>2 ^ e \<le> \<bar>x\<bar> < 2 ^ (e + 1)\<close>. In the binade from \<open>2 ^ e\<close> up to \<open>2 ^ (e + 1)\<close> the doubles are the multiples
  of \<open>2 ^ (e - 52)\<close>; below \<open>2 ^ (- 1022)\<close> they are the multiples of
  \<open>2 ^ (- 1074)\<close>; a result of \<open>2 ^ 1024\<close> or more is an infinity.
\<close>

definition pow2 :: "int \<Rightarrow> real" where
  "pow2 k = (if 0 \<le> k then 2 ^ nat k else 1 / 2 ^ nat (- k))"

definition round_half_even :: "real \<Rightarrow> int" where
  "round_half_even y =
     (let f = \<lfloor>y\<rfloor>; d = y - of_int f
      in if d < 1 / 2 then f
         else if d > 1 / 2 then f + 1
         else if even f then f else f + 1)"

definition to_double :: "real \<Rightarrow> parsed" where
  "to_double x =
     (if x = 0 then Finite 0
      else
        (let e = max \<lfloor>log 2 \<bar>x\<bar>\<rfloor> (- 1022);
             q = pow2 (e - 52);
             v = of_int (round_half_even (\<bar>x\<bar> / q)) * q
         in if v \<ge> pow2 1024 then Infinite (x > 0)
            else Finite (if x < 0 then - v else v)))"

text \<open>The quotient of a number by a positive finite one, as \<^verbatim>\<open>/\<close> computes it.\<close>

definition js_divide :: "parsed \<Rightarrow> real \<Rightarrow> parsed" where
  "js_divide p c =
     (case p of
        NotANumber \<Rightarrow> NotANumber
      | Infinite b \<Rightarrow> Infinite b
      | Finite r \<Rightarrow> to_double (r / c))"

text \<open>An optional sign: whether it is a minus, and the rest.\<close>

fun js_sign :: "string \<Rightarrow> bool \<times> string" where
  "js_sign (c # cs) =
     (if c = CHR ''-'' then (True, cs) else if c = CHR ''+'' then (False, cs) else (False, c # cs))"
| "js_sign [] = (False, [])"

text \<open>The exponent part after the digits of a decimal literal, 0 when there is none.\<close>

definition exponent_part :: "string \<Rightarrow> int" where
  "exponent_part s =
     (case s of
        [] \<Rightarrow> 0
      | c # cs \<Rightarrow>
          if c = CHR ''e'' \<or> c = CHR ''E'' then
            (let (neg, ds) = js_sign cs; ed = takeWhile is_digit ds
             in if ed = [] then 0
                else if neg then - int (digits_val ed) else int (digits_val ed))
          else 0)"

text \<open>
  \<^verbatim>\<open>parseFloat\<close>: leading white space is skipped and the longest prefix that is a decimal
  literal is read; anything after it is ignored. The result is the double for the value
  of the literal.
\<close>

definition parseFloat :: "string \<Rightarrow> parsed" where
  "parseFloat s =
     (let (neg, s2) = js_sign (dropWhile is_ws s)
      in if startsWith s2 ''Infinity'' then Infinite (\<not> neg)
         else
           (let ip = takeWhile is_digit s2;
                r1 = dropWhile is_digit s2;
                (fp, r2) = (case r1 of
                              [] \<Rightarrow> ([], r1)
                            | c # t \<Rightarrow> if c = CHR ''.''
                                       then (takeWhile is_digit t, dropWhile is_digit t)
                                       else ([], r1))
            in if ip = [] \<and> fp = [] then NotANumber
               else
                 (let m = real (digits_val ip) + real (digits_val fp) / 10 ^ length fp;
                      e = exponent_part r2;
                      v = (if e \<ge> 0 then m * 10 ^ nat e else m / 10 ^ nat (- e))
                  in to_double (if neg then - v else v))))"

text \<open>
  \<^verbatim>\<open>parseInt\<close> with no radix: white space, a sign, the prefix \<^verbatim>\<open>0x\<close> for base 16, then
  the longest run of digits; \<open>None\<close> is \<^verbatim>\<open>NaN\<close>.
\<close>

definition parseInt :: "string \<Rightarrow> int option" where
  "parseInt s =
     (let (neg, s2) = js_sign (dropWhile is_ws s);
          hex = (startsWith s2 ''0x'' \<or> startsWith s2 ''0X'');
          ds = (if hex then takeWhile is_hex_digit (drop 2 s2) else takeWhile is_digit s2);
          n = (if hex then hex_digits_val ds else digits_val ds)
      in if ds = [] then None else Some (if neg then - int n else int n))"

section \<open>Values and the conversions of the runtime\<close>

text \<open>
  The values a parsed JSON text can hold, and \<^verbatim>\<open>undefined\<close> for a missing property.
\<close>

datatype jsval =
    JUndefined
  | JNull
  | JBool bool
  | JNumber real
  | JString string
  | JArray "jsval list"
  | JObject "(string \<times> jsval) list"

text \<open>
  What the program takes from its runtime without stating it: the parser of JSON texts
  (\<open>None\<close> when it throws) and the conversions between numbers and strings. They are
  parameters of the model, and every theorem holds for each choice of them.
\<close>

record runtime =
  jsonParse :: "string \<Rightarrow> jsval option"
  numberToString :: "real \<Rightarrow> string"
  stringToNumber :: "string \<Rightarrow> jsnum"

definition truthy :: "jsval \<Rightarrow> bool" where
  "truthy v =
     (case v of
        JUndefined \<Rightarrow> False
      | JNull \<Rightarrow> False
      | JBool b \<Rightarrow> b
      | JNumber r \<Rightarrow> r \<noteq> 0
      | JString s \<Rightarrow> s \<noteq> []
      | JArray xs \<Rightarrow> True
      | JObject kvs \<Rightarrow> True)"

text \<open>\<^verbatim>\<open>a || b\<close>\<close>

definition js_or :: "jsval \<Rightarrow> jsval \<Rightarrow> jsval" where
  "js_or a b = (if truthy a then a else b)"

text \<open>\<^verbatim>\<open>Array.prototype.join\<close> of strings.\<close>

fun join_with :: "string \<Rightarrow> string list \<Rightarrow> string" where
  "join_with sep [] = []"
| "join_with sep [x] = x"
| "join_with sep (x # y # ys) = x @ sep @ join_with sep (y # ys)"

text \<open>
  \<^verbatim>\<open>String(v)\<close>. An array is the join of its elements with commas, \<^verbatim>\<open>null\<close> and
  \<^verbatim>\<open>undefined\<close> elements giving the empty string.
\<close>

fun js_String :: "runtime \<Rightarrow> jsval \<Rightarrow> string" where
  "js_String rt JUndefined = ''undefined''"
| "js_String rt JNull = ''null''"
| "js_String rt (JBool b) = (if b then ''true'' else ''false'')"
| "js_String rt (JNumber r) = numberToString rt r"
| "js_String rt (JString s) = s"
| "js_String rt (JArray xs) =
     join_with '',''
       (map (\<lambda>x. if x = JUndefined \<or> x = JNull then [] else js_String rt x) xs)"
| "js_String rt (JObject kvs) = ''[object Object]''"

text \<open>The conversion of a value to a number.\<close>

definition js_Number :: "runtime \<Rightarrow> jsval \<Rightarrow> jsnum" where
  "js_Number rt v =
     (case v of
        JUndefined \<Rightarrow> NaN
      | JNull \<Rightarrow> Num 0
      | JBool b \<Rightarrow> Num (if b then 1 else 0)
      | JNumber r \<Rightarrow> Num r
      | JString s \<Rightarrow> stringToNumber rt s
      | JArray xs \<Rightarrow> stringToNumber rt (js_String rt v)
      | JObject kvs \<Rightarrow> stringToNumber rt (js_String rt v))"

text \<open>
  Reading a property of \<^verbatim>\<open>null\<close> or \<^verbatim>\<open>undefined\<close> throws a \<^verbatim>\<open>TypeError\<close>;
  the functions that read one test \<open>nullish\<close> first. On every other value
  \<open>readProp\<close> reads a property by name: arrays and strings have \<^verbatim>\<open>length\<close>, and none of
  the names the routes read is a method of a prototype.
\<close>

definition nullish :: "jsval \<Rightarrow> bool" where
  "nullish v = (v = JUndefined \<or> v = JNull)"

definition readProp :: "jsval \<Rightarrow> string \<Rightarrow> jsval" where
  "readProp v name =
     (case v of
        JString s \<Rightarrow> if name = ''length'' then JNumber (real (length s)) else JUndefined
      | JArray xs \<Rightarrow> if name = ''length'' then JNumber (real (length xs)) else JUndefined
      | JObject kvs \<Rightarrow> (case map_of kvs name of None \<Rightarrow> JUndefined | Some x \<Rightarrow> x)
      | _ \<Rightarrow> JUndefined)"

text \<open>
  \<open>readIndex\<close> reads \<^verbatim>\<open>v[i]\<close> for a number \<open>i\<close>: an element of an array, a character of
  a string, the property of an object whose name is the number as a string.
\<close>

definition is_index :: "real \<Rightarrow> nat \<Rightarrow> bool" where
  "is_index i n = (0 \<le> i \<and> i = of_int \<lfloor>i\<rfloor> \<and> nat \<lfloor>i\<rfloor> < n)"

definition readIndex :: "runtime \<Rightarrow> jsval \<Rightarrow> jsnum \<Rightarrow> jsval" where
  "readIndex rt v i =
     (case v of
        JString s \<Rightarrow>
          (case i of
             NaN \<Rightarrow> JUndefined
           | Num r \<Rightarrow> if is_index r (length s) then JString [s ! nat \<lfloor>r\<rfloor>] else JUndefined)
      | JArray xs \<Rightarrow>
          (case i of
             NaN \<Rightarrow> JUndefined
           | Num r \<Rightarrow> if is_index r (length xs) then xs ! nat \<lfloor>r\<rfloor> else JUndefined)
      | JObject kvs \<Rightarrow>
          (case map_of kvs (case i of NaN \<Rightarrow> ''NaN'' | Num r \<Rightarrow> numberToString rt r) of
             None \<Rightarrow> JUndefined
           | Some x \<Rightarrow> x)
      | _ \<Rightarrow> JUndefined)"

text \<open>
  \<^verbatim>\<open>x.toFixed(f)\<close> for a finite double \<open>x\<close>: the integer nearest to the exact
  \<open>x * 10 ^ f\<close>, a tie going to the larger one, written with \<open>f\<close> digits after the
  point; from \<open>10 ^ 21\<close> on, the number as a string. \<open>toFixed\<close> is the method on
  any number.
\<close>

definition js_toFixed :: "runtime \<Rightarrow> nat \<Rightarrow> real \<Rightarrow> string" where
  "js_toFixed rt f x =
     (if \<bar>x\<bar> \<ge> 10 ^ 21 then numberToString rt x
      else
        (let sgn = (if x < 0 then ''-'' else []);
             ax = \<bar>x\<bar>;
             n = nat \<lfloor>ax * 10 ^ f + 1 / 2\<rfloor>;
             m = digits_of n;
             m' = (if length m \<le> f then replicate (f + 1 - length m) (CHR ''0'') @ m else m);
             k = length m' - f
         in if f = 0 then sgn @ m'
            else sgn @ take k m' @ ''.'' @ drop k m'))"

definition toFixed :: "runtime \<Rightarrow> nat \<Rightarrow> parsed \<Rightarrow> string" where
  "toFixed rt f p =
     (case p of
        NotANumber \<Rightarrow> ''NaN''
      | Infinite b \<Rightarrow> if b then ''Infinity'' else ''-Infinity''
      | Finite x \<Rightarrow> js_toFixed rt f x)"

section \<open>The spot sources\<close>

text \<open>
  A spot, with the fields of the object literal (prefix \<open>s_\<close>). The JSON sources copy
  values of any kind from the upstream record, so a field holds a value.
\<close>

record spot =
  s_freq :: jsval
  s_call :: jsval
  s_comment :: jsval
  s_time :: jsval
  s_spotter :: jsval

text \<open>
  The outcome of a fetch: rejected (network error, abort after the timeout), or a
  response with its \<^verbatim>\<open>ok\<close> flag and its body text (\<open>None\<close> when reading it throws).
\<close>

datatype 'a settled = Rejected | Fulfilled 'a

record response =
  r_ok :: bool
  r_text :: "string option"

subsection \<open>HamQTH\<close>

text \<open>\<^verbatim>\<open>parts[i] || ''\<close>\<close>

definition part :: "string list \<Rightarrow> nat \<Rightarrow> string" where
  "part parts i = (if i < length parts then parts ! i else [])"

text \<open>\<^verbatim>\<open>!isNaN(freqNum) && freqNum > 0\<close>\<close>

definition positive :: "parsed \<Rightarrow> bool" where
  "positive p = (case p of NotANumber \<Rightarrow> False | Infinite b \<Rightarrow> b | Finite r \<Rightarrow> r > 0)"

text \<open>The body of the loop over the lines: the spot pushed for a line, if any.\<close>

definition hamqthLine :: "runtime \<Rightarrow> string \<Rightarrow> spot option" where
  "hamqthLine rt line =
     (let parts = js_split (CHR ''^'') line
      in if length parts \<ge> 5 then
           (let spotter = part parts 0;
                freqKhz = part parts 1;
                dxCall = part parts 2;
                comment = part parts 3;
                timeDate = part parts 4;
                band = part parts 9;
                freqNum = parseFloat freqKhz
            in if positive freqNum \<and> dxCall \<noteq> [] then
                 (let freqMhz = toFixed rt 3 (js_divide freqNum 1000);
                      time = (if timeDate \<noteq> [] \<and> length timeDate \<ge> 4 then
                                (let timeStr = substring timeDate 0 4
                                 in substring timeStr 0 2 @ '':'' @ substring timeStr 2 4 @ ''z'')
                              else [])
                  in Some \<lparr>s_freq = JString freqMhz,
                           s_call = JString dxCall,
                           s_comment = JString (comment @ (if band \<noteq> [] then '' '' @ band else [])),
                           s_time = JString time,
                           s_spotter = JString spotter\<rparr>)
               else None)
         else None)"

fun hamqthLoop :: "runtime \<Rightarrow> string list \<Rightarrow> spot list \<Rightarrow> spot list" where
  "hamqthLoop rt [] spots = spots"
| "hamqthLoop rt (line # rest) spots =
     hamqthLoop rt rest (case hamqthLine rt line of None \<Rightarrow> spots | Some s \<Rightarrow> spots @ [s])"

definition hamqthLines :: "string \<Rightarrow> string list" where
  "hamqthLines text =
     filter (\<lambda>line. js_trim line \<noteq> [] \<and> \<not> startsWith line ''#'')
       (js_split (CHR 0x0A) (js_trim text))"

definition hamqthSpots :: "runtime \<Rightarrow> string \<Rightarrow> spot list" where
  "hamqthSpots rt text =
     (let lines = hamqthLines text
      in if length lines > 0 then hamqthLoop rt (take 25 lines) [] else [])"

text \<open>
  The first \<^verbatim>\<open>try\<close> block: \<open>Some spots\<close> when it returns the reply
  \<^verbatim>\<open>res.json(spots)\<close>, \<open>None\<close> when control goes on to the next source.
\<close>

definition tryHamQTH :: "runtime \<Rightarrow> response settled \<Rightarrow> spot list option" where
  "tryHamQTH rt res =
     (case res of
        Rejected \<Rightarrow> None
      | Fulfilled response \<Rightarrow>
          if r_ok response then
            (case r_text response of
               None \<Rightarrow> None
             | Some text \<Rightarrow>
                 (let spots = hamqthSpots rt text
                  in if length spots > 0 then Some spots else None))
          else None)"

subsection \<open>DX Summit\<close>

text \<open>The function mapped over the records; \<open>None\<close> when it throws.\<close>

definition dxSummitSpot :: "runtime \<Rightarrow> jsval \<Rightarrow> spot option" where
  "dxSummitSpot rt spot =
     (if nullish spot then None
      else Some
        \<lparr>s_freq = (if truthy (readProp spot ''frequency'')
                    then JString (js_String rt (readProp spot ''frequency''))
                    else JString ''0.000''),
         s_call = js_or (js_or (js_or (readProp spot ''dx_call'') (readProp spot ''dxcall''))
                     (readProp spot ''callsign'')) (JString ''UNKNOWN''),
         s_comment = js_or (js_or (readProp spot ''info'') (readProp spot ''comment'')) (JString []),
         s_time = (if truthy (readProp spot ''time'')
                    then JString (substring (js_String rt (readProp spot ''time'')) 0 5 @ ''z'')
                    else JString []),
         s_spotter = js_or (js_or (readProp spot ''spotter'') (readProp spot ''de'')) (JString [])\<rparr>)"

definition tryDXSummit :: "runtime \<Rightarrow> response settled \<Rightarrow> spot list option" where
  "tryDXSummit rt res =
     (case res of
        Rejected \<Rightarrow> None
      | Fulfilled response \<Rightarrow>
          if r_ok response then
            (case r_text response of
               None \<Rightarrow> None
             | Some text \<Rightarrow>
                 (case jsonParse rt text of
                    None \<Rightarrow> None
                  | Some data \<Rightarrow>
                      (case data of
                         JArray xs \<Rightarrow>
                           if length xs > 0 then those (map (dxSummitSpot rt) (take 20 xs))
                           else None
                       | _ \<Rightarrow> None)))
          else None)"

subsection \<open>DXHeat\<close>

definition dxHeatSpot :: "runtime \<Rightarrow> jsval \<Rightarrow> spot option" where
  "dxHeatSpot rt spot =
     (if nullish spot then None
      else Some
        \<lparr>s_freq = js_or (js_or (readProp spot ''f'') (readProp spot ''frequency'')) (JString ''0.000''),
         s_call = js_or (js_or (js_or (readProp spot ''c'') (readProp spot ''dx''))
                     (readProp spot ''callsign'')) (JString ''UNKNOWN''),
         s_comment = js_or (js_or (readProp spot ''i'') (readProp spot ''info'')) (JString []),
         s_time = (if truthy (readProp spot ''t'')
                    then JString (substring (js_String rt (readProp spot ''t'')) 11 16 @ ''z'')
                    else JString []),
         s_spotter = js_or (js_or (readProp spot ''s'') (readProp spot ''spotter'')) (JString [])\<rparr>)"

definition tryDXHeat :: "runtime \<Rightarrow> response settled \<Rightarrow> spot list option" where
  "tryDXHeat rt res =
     (case res of
        Rejected \<Rightarrow> None
      | Fulfilled response \<Rightarrow>
          if r_ok response then
            (case r_text response of
               None \<Rightarrow> None
             | Some text \<Rightarrow>
                 (case jsonParse rt text of
                    None \<Rightarrow> None
                  | Some data \<Rightarrow>
                      if nullish data then None
                      else
                        (case js_or (readProp data ''spots'') data of
                           JArray spots \<Rightarrow>
                             if length spots > 0 then those (map (dxHeatSpot rt) (take 20 spots))
                             else None
                         | _ \<Rightarrow> None)))
          else None)"

subsection \<open>The route \<^verbatim>\<open>/api/dxcluster/spots\<close>\<close>

text \<open>
  The route takes the outcome of the fetch of each source and gives the sources it has
  fetched, in order, with the list it replies. It has no reply other than a list.
\<close>

datatype source = HamQTH | DXSummit | DXHeat

definition dxclusterSpots ::
  "runtime \<Rightarrow> (source \<Rightarrow> response settled) \<Rightarrow> source list \<times> spot list" where
  "dxclusterSpots rt fetch =
     (case tryHamQTH rt (fetch HamQTH) of
        Some spots \<Rightarrow> ([HamQTH], spots)
      | None \<Rightarrow>
          (case tryDXSummit rt (fetch DXSummit) of
             Some spots \<Rightarrow> ([HamQTH, DXSummit], spots)
           | None \<Rightarrow>
               (case tryDXHeat rt (fetch DXHeat) of
                  Some mapped \<Rightarrow> ([HamQTH, DXSummit, DXHeat], mapped)
                | None \<Rightarrow> ([HamQTH, DXSummit, DXHeat], []))))"

section \<open>The solar data of the propagation route\<close>

record solarData =
  sd_sfi :: jsnum
  sd_ssn :: jsnum
  sd_kIndex :: jsnum

text \<open>\<^verbatim>\<open>response.json()\<close>, \<open>None\<close> when it rejects.\<close>

definition json :: "runtime \<Rightarrow> response \<Rightarrow> jsval option" where
  "json rt response = (case r_text response of None \<Rightarrow> None | Some text \<Rightarrow> jsonParse rt text)"

text \<open>\<^verbatim>\<open>data?.length\<close>\<close>

definition opt_length :: "jsval \<Rightarrow> jsval" where
  "opt_length data = (if nullish data then JUndefined else readProp data ''length'')"

text \<open>\<^verbatim>\<open>data[data.length - 1]\<close>\<close>

definition last_of :: "runtime \<Rightarrow> jsval \<Rightarrow> jsval" where
  "last_of rt data = readIndex rt data (js_minus (js_Number rt (readProp data ''length'')) (Num 1))"

text \<open>
  The two \<^verbatim>\<open>if\<close> statements of the \<^verbatim>\<open>try\<close> block: the new value of the variable, or
  \<open>None\<close> when the statement throws.
\<close>

definition fluxStep :: "runtime \<Rightarrow> response settled \<Rightarrow> jsnum \<Rightarrow> jsnum option" where
  "fluxStep rt fluxRes sfi =
     (case fluxRes of
        Rejected \<Rightarrow> Some sfi
      | Fulfilled response \<Rightarrow>
          if r_ok response then
            (case json rt response of
               None \<Rightarrow> None
             | Some data \<Rightarrow>
                 if truthy (opt_length data) then
                   (if nullish (last_of rt data) then None
                    else Some (js_Math_round
                           (js_Number rt (js_or (readProp (last_of rt data) ''flux'') (JNumber 150)))))
                 else Some sfi)
          else Some sfi)"

definition kStep :: "runtime \<Rightarrow> response settled \<Rightarrow> jsnum \<Rightarrow> jsnum option" where
  "kStep rt kRes kIndex =
     (case kRes of
        Rejected \<Rightarrow> Some kIndex
      | Fulfilled response \<Rightarrow>
          if r_ok response then
            (case json rt response of
               None \<Rightarrow> None
             | Some data \<Rightarrow>
                 if js_less (Num 1) (js_Number rt (opt_length data)) then
                   (if nullish (last_of rt data) then None
                    else
                      (case parseInt (js_String rt (readIndex rt (last_of rt data) (Num 1))) of
                         None \<Rightarrow> Some (Num 2)
                       | Some n \<Rightarrow> Some (if n = 0 then Num 2 else Num (of_int n))))
                 else Some kIndex)
          else Some kIndex)"

text \<open>\<^verbatim>\<open>Math.max(0, Math.round((sfi - 67) / 0.97))\<close>\<close>

definition ssnFromSfi :: "jsnum \<Rightarrow> jsnum" where
  "ssnFromSfi sfi = num_map (\<lambda>s. max 0 (of_int (js_round ((s - 67) / 0.97)))) sfi"

text \<open>
  The block that sets \<^verbatim>\<open>sfi\<close>, \<^verbatim>\<open>ssn\<close> and \<^verbatim>\<open>kIndex\<close>, from the settled outcomes of
  the two fetches. A throw inside the \<^verbatim>\<open>try\<close> leaves the variables as they are at that
  point.
\<close>

definition solarBlock :: "runtime \<Rightarrow> response settled \<Rightarrow> response settled \<Rightarrow> solarData" where
  "solarBlock rt fluxRes kRes =
     (case fluxStep rt fluxRes (Num 150) of
        None \<Rightarrow> \<lparr>sd_sfi = Num 150, sd_ssn = Num 100, sd_kIndex = Num 2\<rparr>
      | Some sfi \<Rightarrow>
          (case kStep rt kRes (Num 2) of
             None \<Rightarrow> \<lparr>sd_sfi = sfi, sd_ssn = Num 100, sd_kIndex = Num 2\<rparr>
           | Some kIndex \<Rightarrow> \<lparr>sd_sfi = sfi, sd_ssn = ssnFromSfi sfi, sd_kIndex = kIndex\<rparr>))"

text \<open>A live fetch fails: the promise is rejected, or the response is not \<^verbatim>\<open>ok\<close>.\<close>

definition failed :: "response settled \<Rightarrow> bool" where
  "failed res = (case res of Rejected \<Rightarrow> True | Fulfilled response \<Rightarrow> \<not> r_ok response)"

section \<open>A runtime for the examples\<close>

text \<open>
  The concrete inputs of the examples below need a runtime. This one parses the JSON
  texts of the examples; it writes a natural number in decimal digits and reads a string
  as \<^verbatim>\<open>parseFloat\<close> does, which is all it has of the two conversions. No example calls
  either of them.
\<close>

definition exampleRuntime :: runtime where
  "exampleRuntime =
     \<lparr>jsonParse = (\<lambda>text.
          if text = ''[{\"flux\":141.4}]'' then
            Some (JArray [JObject [(''flux'', JNumber 141.4)]])
          else if text = ''[[\"time_tag\",\"Kp\"],[\"2026-01-30 03:00:00.000\",\"0.33\"]]'' then
            Some (JArray [JArray [JString ''time_tag'', JString ''Kp''],
                          JArray [JString ''2026-01-30 03:00:00.000'', JString ''0.33'']])
          else if text = ''[[\"time_tag\",\"Kp\"],[\"2026-01-30 03:00:00.000\",\"4.67\"]]'' then
            Some (JArray [JArray [JString ''time_tag'', JString ''Kp''],
                          JArray [JString ''2026-01-30 03:00:00.000'', JString ''4.67'']])
          else if text = ''[{}]'' then Some (JArray [JObject []])
          else if text = ''[]'' then Some (JArray [])
          else None),
      numberToString = (\<lambda>r. if 0 \<le> r \<and> r = of_int \<lfloor>r\<rfloor> then digits_of (nat \<lfloor>r\<rfloor>) else ''NaN''),
      stringToNumber = (\<lambda>s. case parseFloat s of Finite r \<Rightarrow> Num r | _ \<Rightarrow> NaN)\<rparr>"

section \<open>A frequency as the specification wants it\<close>


section \<open>The estimator against the specification's formulas\<close>

lemma foF2_spec: "0 \<le> ssn + 15 \<Longrightarrow> foF2 ssn hour = Num (spec_foF2 ssn hour)"
  by (simp add: foF2_def js_sqrt_def spec_foF2_def hourFactor_def)

lemma muf_spec:
  "0 \<le> ssn + 15 \<Longrightarrow> 0 \<le> 1 + distance / 3500 \<Longrightarrow>
   muf ssn hour distance midLat = Num (spec_MUF ssn hour distance midLat)"
  by (simp add: muf_def foF2_spec distFactor_def js_sqrt_def spec_MUF_def latFactor_def)

lemma luf_spec: "luf sfi kIndex hour de dx = spec_LUF sfi (dayNight hour de dx) kIndex"
  by (simp add: luf_def spec_LUF_def)

lemma base_spec:
  "\<not> (m = l \<and> freq = m) \<Longrightarrow> baseReliability freq (Num m) l = Num (spec_base freq m l)"
  by (auto simp: baseReliability_def spec_base_def Let_def)

text \<open>
  Claim C5. Wherever the two square roots are defined, the code's foF2, MUF and LUF are
  the formulas of the specification, and the reliability before the storm, path and
  solar factors is the three-way formula (the cases read in order: above the MUF, else
  below the LUF, else inside the window), so that the function returns that value passed
  through the remaining factors and the clamp. The one exception is
  \<open>freq = MUF = LUF\<close>, where the window formula is \<open>0/0\<close> and the code has
  \<^verbatim>\<open>NaN\<close>. A negative argument of a square root gives \<^verbatim>\<open>NaN\<close> as well.
\<close>

theorem C5_formulas:
  "(0 \<le> ssn + 15 \<longrightarrow> foF2 ssn hour = Num (spec_foF2 ssn hour)) \<and>
   (ssn + 15 < 0 \<longrightarrow> foF2 ssn hour = NaN) \<and>
   (0 \<le> ssn + 15 \<and> 0 \<le> 1 + distance / 3500 \<longrightarrow>
      muf ssn hour distance midLat = Num (spec_MUF ssn hour distance midLat)) \<and>
   luf sfi kIndex hour de dx =
      spec_LUF sfi (if isDaytime hour ((lon de + lon dx) / 2) then 1.5 else 0.5) kIndex \<and>
   (0 \<le> ssn + 15 \<and> 0 \<le> 1 + distance / 3500 \<and>
    \<not> (spec_MUF ssn hour distance midLat = luf sfi kIndex hour de dx \<and>
       freq = spec_MUF ssn hour distance midLat) \<longrightarrow>
      calculateBandReliability freq distance midLat hour sfi ssn kIndex de dx =
        finish freq distance sfi kIndex
          (Num (spec_base freq (spec_MUF ssn hour distance midLat) (luf sfi kIndex hour de dx)))) \<and>
   (0 \<le> ssn + 15 \<and> 0 \<le> 1 + distance / 3500 \<and>
    spec_MUF ssn hour distance midLat = luf sfi kIndex hour de dx \<and>
    freq = spec_MUF ssn hour distance midLat \<longrightarrow>
      calculateBandReliability freq distance midLat hour sfi ssn kIndex de dx = NaN)"
proof -
  have "ssn + 15 < 0 \<Longrightarrow> foF2 ssn hour = NaN"
    by (simp add: foF2_def js_sqrt_def)
  moreover have "luf sfi kIndex hour de dx =
      spec_LUF sfi (if isDaytime hour ((lon de + lon dx) / 2) then 1.5 else 0.5) kIndex"
    by (simp add: luf_spec dayNight_def)
  moreover have "calculateBandReliability freq distance midLat hour sfi ssn kIndex de dx = NaN"
    if "0 \<le> ssn + 15" "0 \<le> 1 + distance / 3500"
       "spec_MUF ssn hour distance midLat = luf sfi kIndex hour de dx"
       "freq = spec_MUF ssn hour distance midLat"
    using that by (simp add: calculateBandReliability_def muf_spec baseReliability_def finish_def)
  ultimately show ?thesis
    by (simp add: foF2_spec muf_spec base_spec calculateBandReliability_def)
qed

theorem C5_formulas_witness:
  "(0::real) \<le> 1 + 15 \<and> (0::real) \<le> 1 + 0 / 3500 \<and>
   foF2 1 0 = Num (spec_foF2 1 0) \<and> spec_foF2 1 0 = 54 / 25 \<and>
   muf 1 0 0 0 = Num (spec_MUF 1 0 0 0) \<and> spec_MUF 1 0 0 0 = 189 / 25 \<and>
   calculateBandReliability 50 0 0 0 150 1 2 \<lparr>lat = 40, lon = -75\<rparr> \<lparr>lat = 40, lon = -75\<rparr> =
     finish 50 0 150 2 (Num (spec_base 50 (189 / 25) (luf 150 2 0 \<lparr>lat = 40, lon = -75\<rparr> \<lparr>lat = 40, lon = -75\<rparr>)))"
proof -
  have v1: "spec_foF2 1 0 = 54 / 25" by (simp add: spec_foF2_def)
  have v2: "spec_MUF 1 0 0 0 = 189 / 25" by (simp add: spec_MUF_def v1)
  have v3: "luf 150 2 0 \<lparr>lat = 40, lon = -75\<rparr> \<lparr>lat = 40, lon = -75\<rparr> = 15 / 4"
    by (simp add: luf_def dayNight_def isDaytime_def js_rem_def js_trunc_def)
  show ?thesis
    using C5_formulas [of 1 0 0 0 150 2 "\<lparr>lat = 40, lon = -75\<rparr>" "\<lparr>lat = 40, lon = -75\<rparr>" 50]
    by (simp add: v1 v2 v3)
qed

section \<open>Storm degradation\<close>


lemma inrange: fixes f m l :: real assumes "l \<le> f" "f \<le> m" "m \<noteq> l"
  shows "\<bar>f - (m + l) / 2\<bar> / (m - l) \<le> 1/2" "0 \<le> \<bar>f - (m + l) / 2\<bar> / (m - l)"
proof -
  have pos: "0 < m - l" using assms by simp
  have "\<bar>f - (m + l) / 2\<bar> \<le> (m - l) / 2" using assms by (simp add: abs_le_iff field_simps)
  then show "\<bar>f - (m + l) / 2\<bar> / (m - l) \<le> 1/2" using pos by (simp add: field_simps)
  show "0 \<le> \<bar>f - (m + l) / 2\<bar> / (m - l)" using pos by simp
qed

lemma inrange_value: fixes f m l :: real assumes "l \<le> f" "f \<le> m" "m \<noteq> l"
  shows "145 / 2 \<le> 50 + (1 - \<bar>f - (m + l) / 2\<bar> / (m - l)) * 45"
    "50 + (1 - \<bar>f - (m + l) / 2\<bar> / (m - l)) * 45 \<le> 95"
proof -
  define q where "q = \<bar>f - (m + l) / 2\<bar> / (m - l)"
  have "0 \<le> q" "q \<le> 1/2" using inrange[OF assms] by (simp_all add: q_def)
  then show "145 / 2 \<le> 50 + (1 - \<bar>f - (m + l) / 2\<bar> / (m - l)) * 45"
    "50 + (1 - \<bar>f - (m + l) / 2\<bar> / (m - l)) * 45 \<le> 95"
    unfolding q_def[symmetric] by simp_all
qed

lemma base_range:
  assumes "baseReliability freq mf l = Num b" shows "0 \<le> b \<and> b \<le> 95"
proof (cases mf)
  case NaN
  with assms show ?thesis by (auto simp: baseReliability_def split: if_splits)
next
  case (Num m)
  show ?thesis
  proof (cases "freq > m \<or> freq < l")
    case True
    with assms Num show ?thesis by (auto simp: baseReliability_def split: if_splits)
  next
    case False
    then have h: "l \<le> freq" "freq \<le> m" by simp_all
    with assms Num have ne: "m \<noteq> l" by (auto simp: baseReliability_def split: if_splits)
    from assms Num h ne have "b = 50 + (1 - \<bar>freq - (m + l) / 2\<bar> / (m - l)) * 45"
      by (auto simp: baseReliability_def Let_def)
    with inrange_value[OF h ne] show ?thesis by simp
  qed
qed

lemma base_k:
  assumes x: "baseReliability freq mf l = Num x"
      and y: "baseReliability freq mf (l + 3/2) = Num y"
    shows "3 / 10 * y \<le> x \<and> (0 < x \<longrightarrow> 3 / 10 * y < x)"
proof -
  have xr: "0 \<le> x" "x \<le> 95" using base_range[OF x] by simp_all
  have yr: "0 \<le> y" "y \<le> 95" using base_range[OF y] by simp_all
  show ?thesis
  proof (cases "freq < l")
    case True
    then have "\<exists>m. mf = Num m \<and> freq > m \<or> y \<le> x" using x y
      by (cases mf) (auto simp: baseReliability_def split: if_splits)
    moreover have "\<And>m. mf = Num m \<Longrightarrow> freq > m \<Longrightarrow> y = x" using x y
      by (auto simp: baseReliability_def)
    ultimately have "y \<le> x" by auto
    with xr yr show ?thesis by auto
  next
    case False
    show ?thesis
    proof (cases mf)
      case NaN
      with False x show ?thesis by (simp add: baseReliability_def)
    next
      case (Num m)
      show ?thesis
      proof (cases "freq > m")
        case True
        with Num x y have "y = x" by (auto simp: baseReliability_def)
        with xr show ?thesis by auto
      next
        case F2: False
        with False have h: "l \<le> freq" "freq \<le> m" by simp_all
        with x Num have ne: "m \<noteq> l" by (auto simp: baseReliability_def split: if_splits)
        from x Num h ne have "x = 50 + (1 - \<bar>freq - (m + l) / 2\<bar> / (m - l)) * 45"
          by (auto simp: baseReliability_def Let_def)
        with inrange_value[OF h ne] have "145 / 2 \<le> x" by simp
        with yr show ?thesis by auto
      qed
    qed
  qed
qed

lemma post_linear: "\<exists>c. \<forall>r. highBand freq sfi (distanceAdjustment distance r) = r * c"
proof -
  have "\<forall>r. distanceAdjustment distance r =
      r * (if distance > 15000 then 7 / 10 else if distance > 10000 then 17 / 20 else 1)"
    by (simp add: distanceAdjustment_def)
  then obtain c1 where c1: "\<forall>r. distanceAdjustment distance r = r * c1" by blast
  obtain c2 where c2: "\<forall>r. highBand freq sfi r = r * c2"
  proof -
    have "\<forall>r. highBand freq sfi r = r * ((if freq \<ge> 21 \<and> sfi < 100 then sfi / 100 else 1) * (if freq \<ge> 28 \<and> sfi < 120 then sfi / 120 else 1))"
      by (auto simp: highBand_def Let_def)
    then show ?thesis using that by blast
  qed
  have "\<forall>r. highBand freq sfi (distanceAdjustment distance r) = r * (c1 * c2)"
    using c1 c2 by (simp add: mult.assoc)
  then show ?thesis by blast
qed

text \<open>
  Claim C7, as amended. With every other argument fixed, the reliability for
  \<open>kIndex = 5\<close> is never above the one for \<open>kIndex = 2\<close>, and it is strictly below
  whenever the latter lies strictly between 0 and 99 (both being numbers).
\<close>

theorem C7_kIndex_5_below_2:
  assumes a: "calculateBandReliability freq distance midLat hour sfi ssn 2 de dx = Num a"
      and b: "calculateBandReliability freq distance midLat hour sfi ssn 5 de dx = Num b"
    shows "b \<le> a \<and> (0 < a \<and> a < 99 \<longrightarrow> b < a)"
proof -
  define mf where "mf = muf ssn hour distance midLat"
  define l where "l = luf sfi 2 hour de dx"
  have l5: "luf sfi 5 hour de dx = l + 3/2" by (simp add: l_def luf_def)
  obtain c where c: "\<And>r. highBand freq sfi (distanceAdjustment distance r) = r * c"
    using post_linear by blast
  from a obtain x where x: "baseReliability freq mf l = Num x"
    and ax: "a = min 99 (max 0 (x * c))"
    by (cases "baseReliability freq mf l")
       (auto simp: calculateBandReliability_def finish_def mf_def l_def c kDegradation_def)
  from b obtain y where y: "baseReliability freq mf (l + 3/2) = Num y"
    and bx: "b = min 99 (max 0 (3 / 10 * y * c))"
    by (cases "baseReliability freq mf (l + 3/2)")
       (auto simp: calculateBandReliability_def finish_def mf_def l5 c kDegradation_def)
  have xr: "0 \<le> x" using base_range[OF x] by simp
  have yr: "0 \<le> y" using base_range[OF y] by simp
  note k = base_k[OF x y]
  show ?thesis
  proof (cases "0 < c")
    case True
    have le: "3 / 10 * y * c \<le> x * c" using k True by (simp add: mult_right_mono)
    then have "b \<le> a" unfolding ax bx by (intro min.mono max.mono) simp_all
    moreover have "b < a" if h: "0 < a" "a < 99"
    proof -
      from h have axc: "a = x * c" unfolding ax by (auto simp: min_def max_def split: if_splits)
      with h True have "0 < x" using xr by (simp add: zero_less_mult_iff)
      with k have "3 / 10 * y < x" by simp
      with True have "3 / 10 * y * c < x * c" by (simp add: mult_strict_right_mono)
      moreover have "min 99 (max 0 u) < v" if "u < v" "0 < v" for u v :: real
        using that by (auto simp: min_def max_def)
      ultimately show ?thesis unfolding bx using h axc by simp
    qed
    ultimately show ?thesis by blast
  next
    case False
    then have "x * c \<le> 0" "3 / 10 * y * c \<le> 0" using xr yr
      by (simp_all add: mult_le_0_iff)
    then have "a = 0" "b = 0" unfolding ax bx by (simp_all add: max_def)
    then show ?thesis by simp
  qed
qed


text \<open>
  Claim C7 as stated fails: on the 6 m band, far above the MUF, the reliability is 0 for
  both values of the K index, so the value for \<open>kIndex = 5\<close> is not strictly less.
\<close>

theorem C7_counterexample:
  "calculateBandReliability 50 10500 (75 / 2) 0 149 85 2 \<lparr>lat = 40, lon = -75\<rparr> \<lparr>lat = 35, lon = 139\<rparr> = Num 0 \<and>
   calculateBandReliability 50 10500 (75 / 2) 0 149 85 5 \<lparr>lat = 40, lon = -75\<rparr> \<lparr>lat = 35, lon = 139\<rparr> = Num 0 \<and>
   \<not> js_less
     (calculateBandReliability 50 10500 (75 / 2) 0 149 85 5 \<lparr>lat = 40, lon = -75\<rparr> \<lparr>lat = 35, lon = 139\<rparr>)
     (calculateBandReliability 50 10500 (75 / 2) 0 149 85 2 \<lparr>lat = 40, lon = -75\<rparr> \<lparr>lat = 35, lon = 139\<rparr>)"
proof -
  have m: "muf 85 0 10500 (75 / 2) = Num (2457 / 80)"
    by (simp add: muf_def foF2_def hourFactor_def distFactor_def latFactor_def js_sqrt_def)
  have "calculateBandReliability 50 10500 (75 / 2) 0 149 85 k de dx = Num 0" for k de dx
    by (simp add: calculateBandReliability_def m baseReliability_def finish_def
        kDegradation_def distanceAdjustment_def highBand_def)
  then show ?thesis by simp
qed

theorem C7_kIndex_5_below_2_witness:
  "calculateBandReliability 7 0 0 12 100 34 2 \<lparr>lat = 40, lon = -75\<rparr> \<lparr>lat = 40, lon = -75\<rparr> = Num (44985 / 586) \<and>
   calculateBandReliability 7 0 0 12 100 34 5 \<lparr>lat = 40, lon = -75\<rparr> \<lparr>lat = 40, lon = -75\<rparr> = Num (73923 / 3316) \<and>
   (0::real) < 44985 / 586 \<and> (44985 / 586 :: real) < 99 \<and> (73923 / 3316 :: real) < 44985 / 586"
proof -
  have m: "muf 34 12 0 0 = Num (3087 / 100)"
    by (simp add: muf_def foF2_def hourFactor_def distFactor_def latFactor_def js_sqrt_def)
  have d: "dayNight 12 \<lparr>lat = 40, lon = -75\<rparr> \<lparr>lat = 40, lon = -75\<rparr> = 3 / 2"
    by (simp add: dayNight_def isDaytime_def js_rem_def js_trunc_def)
  have a: "calculateBandReliability 7 0 0 12 100 34 2 \<lparr>lat = 40, lon = -75\<rparr> \<lparr>lat = 40, lon = -75\<rparr> = Num (44985 / 586)"
    by (simp add: calculateBandReliability_def m luf_def d baseReliability_def finish_def
        kDegradation_def distanceAdjustment_def highBand_def)
  have b: "calculateBandReliability 7 0 0 12 100 34 5 \<lparr>lat = 40, lon = -75\<rparr> \<lparr>lat = 40, lon = -75\<rparr> = Num (73923 / 3316)"
    by (simp add: calculateBandReliability_def m luf_def d baseReliability_def finish_def
        kDegradation_def distanceAdjustment_def highBand_def)
  show ?thesis using C7_kIndex_5_below_2 [OF a b] a b by simp
qed

section \<open>The hourly predictions\<close>

lemma hourLoop_eq:
  "hourLoop freq distance midLat sfi ssn kIndex de dx h acc =
     acc @ map (\<lambda>hour. \<lparr>p_hour = hour,
        p_reliability = js_Math_round (calculateBandReliability freq distance midLat (real hour) sfi ssn kIndex de dx),
        p_snr = calculateSNR (calculateBandReliability freq distance midLat (real hour) sfi ssn kIndex de dx)\<rparr>) [h..<24]"
proof (induction freq distance midLat sfi ssn kIndex de dx h acc rule: hourLoop.induct)
  case (1 freq distance midLat sfi ssn kIndex de dx hour acc)
  show ?case
  proof (cases "hour < 24")
    case True
    then have "[hour..<24] = hour # [Suc hour..<24]" by (simp add: upt_conv_Cons)
    with True 1 show ?thesis by (subst hourLoop.simps) (simp add: Let_def)
  next
    case False
    then show ?thesis by (subst hourLoop.simps) simp
  qed
qed

lemma hourLoop_nth:
  "h < 24 \<Longrightarrow> hourLoop freq distance midLat sfi ssn kIndex de dx 0 [] ! h =
     \<lparr>p_hour = h,
      p_reliability = js_Math_round (calculateBandReliability freq distance midLat (real h) sfi ssn kIndex de dx),
      p_snr = calculateSNR (calculateBandReliability freq distance midLat (real h) sfi ssn kIndex de dx)\<rparr>"
  by (simp add: hourLoop_eq)

lemma hourLoop_length: "length (hourLoop freq distance midLat sfi ssn kIndex de dx 0 []) = 24"
  by (simp add: hourLoop_eq)

lemma hourLoop_hours: "map p_hour (hourLoop freq distance midLat sfi ssn kIndex de dx 0 []) = [0..<24]"
  by (simp add: hourLoop_eq comp_def)

lemma upt_10: "[0..<10] = [0, 1, 2, 3, 4, 5, 6, 7, 8, 9::nat]"
  by (simp add: upt_conv_Cons)

lemma hourlyPredictions_list:
  "hourlyPredictions distance midLat sfi ssn kIndex de dx =
     map (\<lambda>(band, freq). (band, hourLoop freq distance midLat sfi ssn kIndex de dx 0 []))
       (zip bands bandFreqs)"
  by (simp add: hourlyPredictions_def bands_def bandFreqs_def upt_10)

lemma hourlyPredictions_keys:
  "map fst (hourlyPredictions distance midLat sfi ssn kIndex de dx) = bands"
  by (simp add: hourlyPredictions_list bands_def bandFreqs_def)

lemma finish_range: "finish freq distance sfi kIndex b = Num r \<Longrightarrow> 0 \<le> r \<and> r \<le> 99"
  by (cases b) (auto simp: finish_def)

lemma rounded_range:
  "js_Math_round (calculateBandReliability freq distance midLat hour sfi ssn kIndex de dx) = NaN \<or>
   (\<exists>n. js_Math_round (calculateBandReliability freq distance midLat hour sfi ssn kIndex de dx) = Num (of_int n)
        \<and> 0 \<le> n \<and> n \<le> 99)"
proof (cases "calculateBandReliability freq distance midLat hour sfi ssn kIndex de dx")
  case NaN
  then show ?thesis by (simp add: js_Math_round_def)
next
  case (Num r)
  then have "0 \<le> r \<and> r \<le> 99" unfolding calculateBandReliability_def by (rule finish_range)
  then have "0 \<le> js_round r \<and> js_round r \<le> 99" unfolding js_round_def by linarith
  with Num show ?thesis by (simp add: js_Math_round_def)
qed

lemma hourlyPredictions_shape:
  assumes "(band, es) \<in> set (hourlyPredictions distance midLat sfi ssn kIndex de dx)"
  shows "length es = 24" and "map p_hour es = [0..<24]"
    and "\<forall>e \<in> set es. p_reliability e = NaN \<or>
           (\<exists>n. p_reliability e = Num (of_int n) \<and> 0 \<le> n \<and> n \<le> 99)"
proof -
  from assms obtain freq where es: "es = hourLoop freq distance midLat sfi ssn kIndex de dx 0 []"
    by (auto simp: hourlyPredictions_list)
  show "length es = 24" by (simp add: es hourLoop_length)
  show "map p_hour es = [0..<24]" by (simp add: es hourLoop_hours)
  show "\<forall>e \<in> set es. p_reliability e = NaN \<or>
           (\<exists>n. p_reliability e = Num (of_int n) \<and> 0 \<le> n \<and> n \<le> 99)"
    using rounded_range by (auto simp: es hourLoop_eq)
qed







section \<open>The label of an entry against its rounded reliability\<close>

lemma day_12: "dayNight 12 \<lparr>lat = la, lon = -75\<rparr> \<lparr>lat = la, lon = -75\<rparr> = 3 / 2"
  by (simp add: dayNight_def isDaytime_def js_rem_def js_trunc_def)

lemma muf_12: "muf 34 12 0 la = Num (3087 / 100 * (1 - \<bar>la\<bar> / 200))"
  by (simp add: muf_def foF2_def hourFactor_def distFactor_def latFactor_def js_sqrt_def)

lemma rel_80:
  "calculateBandReliability 24 0 20 12 100 34 2 \<lparr>lat = 20, lon = -75\<rparr> \<lparr>lat = 20, lon = -75\<rparr> = Num (31765 / 398)"
  by (simp add: calculateBandReliability_def muf_12 luf_def day_12 baseReliability_def finish_def
      kDegradation_def distanceAdjustment_def highBand_def)

lemma rel_60:
  "calculateBandReliability 24 0 38 12 100 34 3 \<lparr>lat = 38, lon = -75\<rparr> \<lparr>lat = 38, lon = -75\<rparr> = Num (11964418 / 200047)"
  by (simp add: calculateBandReliability_def muf_12 luf_def day_12 baseReliability_def finish_def
      kDegradation_def distanceAdjustment_def highBand_def)

lemma rel_40:
  "calculateBandReliability 28 0 20 12 100 34 2 \<lparr>lat = 20, lon = -75\<rparr> \<lparr>lat = 20, lon = -75\<rparr> = Num (4783 / 120)"
  by (simp add: calculateBandReliability_def muf_12 luf_def day_12 baseReliability_def finish_def
      kDegradation_def distanceAdjustment_def highBand_def)

lemma rel_20:
  "calculateBandReliability 24 0 64 12 100 34 2 \<lparr>lat = 64, lon = -75\<rparr> \<lparr>lat = 64, lon = -75\<rparr> = Num (4979 / 250)"
  by (simp add: calculateBandReliability_def muf_12 luf_def day_12 baseReliability_def finish_def
      kDegradation_def distanceAdjustment_def highBand_def)

text \<open>
  Claim C9. Every entry carries the rounded reliability and the label of the unrounded
  one. At solar flux 100 (sunspot number 34), hour 12, both stations at longitude -75:
  with K index 2 and latitude 20 the 12 m band has the unrounded reliability
  \<open>31765/398\<close> (about 79.81), reported as 80 with the label of the class below, and the
  10 m band has \<open>4783/120\<close> (about 39.86), reported as 40; with K index 3 and latitude
  38 the 12 m band has about 59.81, reported as 60; with K index 2 and latitude 64 it has
  19.916, reported as 20. In each case the label of the entry is not the label of its
  own reliability field.
\<close>

theorem C9_label_of_unrounded:
  "hourLoop freq distance midLat sfi ssn kIndex de dx 0 [] =
     map (\<lambda>hour. \<lparr>p_hour = hour,
        p_reliability = js_Math_round (calculateBandReliability freq distance midLat (real hour) sfi ssn kIndex de dx),
        p_snr = calculateSNR (calculateBandReliability freq distance midLat (real hour) sfi ssn kIndex de dx)\<rparr>)
       [0..<24] \<and>
   (let e = hourLoop 24 0 20 100 34 2 \<lparr>lat = 20, lon = -75\<rparr> \<lparr>lat = 20, lon = -75\<rparr> 0 [] ! 12
    in p_reliability e = Num 80 \<and> p_snr e = ''+10dB'' \<and> calculateSNR (p_reliability e) = ''+20dB'') \<and>
   (let e = hourLoop 24 0 38 100 34 3 \<lparr>lat = 38, lon = -75\<rparr> \<lparr>lat = 38, lon = -75\<rparr> 0 [] ! 12
    in p_reliability e = Num 60 \<and> p_snr e = ''0dB'' \<and> calculateSNR (p_reliability e) = ''+10dB'') \<and>
   (let e = hourLoop 28 0 20 100 34 2 \<lparr>lat = 20, lon = -75\<rparr> \<lparr>lat = 20, lon = -75\<rparr> 0 [] ! 12
    in p_reliability e = Num 40 \<and> p_snr e = ''-10dB'' \<and> calculateSNR (p_reliability e) = ''0dB'') \<and>
   (let e = hourLoop 24 0 64 100 34 2 \<lparr>lat = 64, lon = -75\<rparr> \<lparr>lat = 64, lon = -75\<rparr> 0 [] ! 12
    in p_reliability e = Num 20 \<and> p_snr e = ''-20dB'' \<and> calculateSNR (p_reliability e) = ''-10dB'')"
proof -
  have r: "js_Math_round (Num (31765 / 398)) = Num 80" "js_Math_round (Num (11964418 / 200047)) = Num 60"
    "js_Math_round (Num (4783 / 120)) = Num 40" "js_Math_round (Num (4979 / 250)) = Num 20"
    by (simp_all add: js_Math_round_def js_round_def)
  show ?thesis
    using hourLoop_eq [of freq distance midLat sfi ssn kIndex de dx 0 "[]"]
    by (simp add: hourLoop_nth rel_80 rel_60 rel_40 rel_20 r calculateSNR_def)
qed

section \<open>The sort of the current bands\<close>

lemma set_js_insert: "set (js_insert cmp x ys) = insert x (set ys)"
  by (induction ys) auto

lemma set_js_sort: "set (js_sort cmp xs) = set xs"
  by (induction xs) (auto simp: set_js_insert)




text \<open>The comparison function of the route on entries whose reliabilities are numbers.\<close>

lemma byReliability_numbers:
  "b_reliability x = Num p \<Longrightarrow> b_reliability y = Num q \<Longrightarrow>
   js_less (Num 0) (byReliability x y) = (p < q)"
  by (simp add: byReliability_def)

lemma insert_sorted:
  assumes "\<forall>e \<in> set (x # ys). b_reliability e = Num (k e)"
      and "sorted_wrt (\<lambda>a b. k a \<ge> k b) ys"
  shows "sorted_wrt (\<lambda>a b. k a \<ge> k b) (js_insert byReliability x ys)"
  using assms
proof (induction ys)
  case Nil
  then show ?case by simp
next
  case (Cons y ys)
  then have xy: "js_less (Num 0) (byReliability x y) = (k x < k y)"
    by (simp add: byReliability_numbers)
  show ?case
  proof (cases "k x < k y")
    case True
    with Cons xy show ?thesis by (auto simp: set_js_insert)
  next
    case False
    with Cons.prems xy show ?thesis by auto
  qed
qed

lemma insert_stable:
  assumes "\<forall>e \<in> set (x # ys). b_reliability e = Num (k e)"
      and "sorted_wrt (\<lambda>a b. k a \<ge> k b) ys"
  shows "filter (\<lambda>e. k e = r) (js_insert byReliability x ys) = filter (\<lambda>e. k e = r) (x # ys)"
  using assms
proof (induction ys)
  case Nil
  then show ?case by simp
next
  case (Cons y ys)
  then have xy: "js_less (Num 0) (byReliability x y) = (k x < k y)"
    by (simp add: byReliability_numbers)
  show ?case
  proof (cases "k x < k y")
    case True
    with Cons xy show ?thesis by auto
  next
    case False
    with xy show ?thesis by simp
  qed
qed

lemma sort_sorted:
  assumes "\<forall>e \<in> set xs. b_reliability e = Num (k e)"
  shows "sorted_wrt (\<lambda>a b. k a \<ge> k b) (js_sort byReliability xs)"
  using assms
proof (induction xs)
  case Nil
  then show ?case by simp
next
  case (Cons x xs)
  then have s: "sorted_wrt (\<lambda>a b. k a \<ge> k b) (js_sort byReliability xs)" by simp
  from Cons.prems have a: "\<forall>e \<in> set (x # js_sort byReliability xs). b_reliability e = Num (k e)"
    by (simp add: set_js_sort)
  show ?case using insert_sorted[OF a s] by simp
qed

lemma sort_stable:
  assumes "\<forall>e \<in> set xs. b_reliability e = Num (k e)"
  shows "filter (\<lambda>e. k e = r) (js_sort byReliability xs) = filter (\<lambda>e. k e = r) xs"
  using assms
proof (induction xs)
  case Nil
  then show ?case by simp
next
  case (Cons x xs)
  then have f: "filter (\<lambda>e. k e = r) (js_sort byReliability xs) = filter (\<lambda>e. k e = r) xs"
    by simp
  from Cons.prems have a: "\<forall>e \<in> set (x # js_sort byReliability xs). b_reliability e = Num (k e)"
    by (simp add: set_js_sort)
  from Cons.prems have s: "sorted_wrt (\<lambda>a b. k a \<ge> k b) (js_sort byReliability xs)"
    by (simp add: sort_sorted)
  show ?case using insert_stable[OF a s, of r] f by simp
qed

lemma those_map_Some: "\<forall>x \<in> set xs. f x = Some (g x) \<Longrightarrow> those (map f xs) = Some (map g xs)"
  by (induction xs) simp_all

lemma distinct_bands: "distinct bands"
  by (simp add: bands_def)


lemma lookup_band:
  assumes "idx < length bands"
  shows "map_of (hourlyPredictions distance midLat sfi ssn kIndex de dx) (bands ! idx) =
           Some (hourLoop (bandFreqs ! idx) distance midLat sfi ssn kIndex de dx 0 [])"
proof -
  let ?g = "\<lambda>idx. hourLoop (bandFreqs ! idx) distance midLat sfi ssn kIndex de dx 0 []"
  have "hourlyPredictions distance midLat sfi ssn kIndex de dx = zip bands (map ?g [0..<length bands])"
    unfolding hourlyPredictions_def by (rule nth_equalityI) simp_all
  with assms show ?thesis by (simp add: map_of_zip_nth distinct_bands)
qed

lemma currentBands_eq:
  assumes "currentHour < 24"
  shows "currentBands (hourlyPredictions distance midLat sfi ssn kIndex de dx) currentHour =
     Some (js_sort byReliability
             (summaries distance midLat sfi ssn kIndex de dx currentHour))"
proof -
  have "those (map (bandSummaryAt (hourlyPredictions distance midLat sfi ssn kIndex de dx) currentHour)
                 [0..<length bands])
        = Some (summaries distance midLat sfi ssn kIndex de dx currentHour)"
    unfolding summaries_def using assms
    by (intro those_map_Some) (simp add: bandSummaryAt_def lookup_band hourLoop_length hourLoop_nth)
  then show ?thesis by (simp add: currentBands_def)
qed


lemma currentBands_sorted_stable:
  assumes cb: "currentBands (hourlyPredictions distance midLat sfi ssn kIndex de dx) currentHour = Some cb"
      and h: "currentHour < 24"
      and n: "\<forall>e \<in> set cb. b_reliability e = Num (k e)"
  shows "sorted_wrt (\<lambda>a b. k a \<ge> k b) cb"
    and "filter (\<lambda>e. k e = r) cb =
           filter (\<lambda>e. k e = r) (summaries distance midLat sfi ssn kIndex de dx currentHour)"
proof -
  let ?xs = "summaries distance midLat sfi ssn kIndex de dx currentHour"
  from cb h have e: "cb = js_sort byReliability ?xs" by (simp add: currentBands_eq)
  with n have "\<forall>e \<in> set ?xs. b_reliability e = Num (k e)" by (simp add: set_js_sort)
  then show "sorted_wrt (\<lambda>a b. k a \<ge> k b) cb"
    and "filter (\<lambda>e. k e = r) cb = filter (\<lambda>e. k e = r) ?xs"
    unfolding e by (rule sort_sorted, rule sort_stable)
qed


section \<open>The solar data\<close>

lemma ssn_150: "ssnFromSfi (Num 150) = Num 86"
  by (simp add: ssnFromSfi_def js_round_def)

lemma last_of_array:
  assumes "xs \<noteq> []" shows "last_of rt (JArray xs) = last xs"
proof -
  have e: "real (length xs) - 1 = real (length xs - 1)" using assms
    by (cases xs) simp_all
  have f: "nat \<lfloor>real (length xs) - 1\<rfloor> = length xs - 1"
    unfolding e by simp
  have i: "is_index (real (length xs) - 1) (length xs)"
    unfolding is_index_def e using assms by simp
  have g: "nat (int (length xs) - 1) = length xs - 1" by simp
  have "last_of rt (JArray xs) = xs ! (length xs - 1)"
    by (simp add: last_of_def readProp_def js_Number_def readIndex_def i f g)
  with assms show ?thesis by (simp add: last_conv_nth)
qed

lemma failed_fluxStep: "failed fluxRes \<Longrightarrow> fluxStep rt fluxRes sfi = Some sfi"
  by (cases fluxRes) (simp_all add: failed_def fluxStep_def)

lemma failed_kStep: "failed kRes \<Longrightarrow> kStep rt kRes kIndex = Some kIndex"
  by (cases kRes) (simp_all add: failed_def kStep_def)

lemma fluxStep_live:
  assumes "fluxRes = Fulfilled response" "r_ok response" "json rt response = Some (JArray xs)"
    "xs \<noteq> []" "last xs = JObject kvs" "map_of kvs ''flux'' = Some (JNumber f)" "f \<noteq> 0"
  shows "fluxStep rt fluxRes sfi = Some (Num (of_int (js_round f)))"
  using assms
  by (simp add: fluxStep_def opt_length_def nullish_def readProp_def truthy_def last_of_array
      js_or_def js_Number_def js_Math_round_def)

lemma kStep_live:
  assumes "kRes = Fulfilled response" "r_ok response" "json rt response = Some (JArray xs)"
    "length xs > 1" "last xs = JArray ys" "length ys > 1" "ys ! 1 = JString s"
    "parseInt s = Some n" "n \<noteq> 0"
  shows "kStep rt kRes kIndex = Some (Num (of_int n))"
proof -
  from assms(4) have ne: "xs \<noteq> []" by auto
  have "readIndex rt (JArray ys) (Num 1) = JString s" using assms(6,7)
    by (simp add: readIndex_def is_index_def)
  with assms ne show ?thesis
    by (simp add: kStep_def opt_length_def nullish_def readProp_def js_Number_def last_of_array)
qed

lemma kStep_not_zero: "kStep rt kRes (Num 2) \<noteq> Some (Num 0)"
  by (auto simp: kStep_def split: settled.splits option.splits if_splits)


lemma kStep_cases: "kStep rt kRes (Num 2) = None \<or> (\<exists>k. kStep rt kRes (Num 2) = Some (Num k) \<and> k \<noteq> 0)"
  by (auto simp: kStep_def split: settled.splits option.splits)

lemma solar_kIndex_not_zero: "sd_kIndex (solarBlock rt fluxRes kRes) \<noteq> Num 0"
  using kStep_cases [of rt kRes]
  by (auto simp: solarBlock_def split: option.splits)

lemma kStep_parse_zero:
  assumes "kRes = Fulfilled response" "r_ok response" "json rt response = Some data"
    and "parseInt (js_String rt (readIndex rt (last_of rt data) (Num 1))) = None \<or>
         parseInt (js_String rt (readIndex rt (last_of rt data) (Num 1))) = Some 0"
  shows "kStep rt kRes (Num 2) = None \<or> kStep rt kRes (Num 2) = Some (Num 2)"
  using assms by (auto simp: kStep_def)

text \<open>
  Claim C1, as amended. When both live fetches fail (rejected, or answered with a status
  that is not \<^verbatim>\<open>ok\<close>) the solar data are sfi 150, ssn 86 and kIndex 2: the sunspot
  number is computed from the default flux as well. Whenever neither statement of the
  block throws, ssn is \<open>max(0, round((sfi - 67) / 0.97))\<close> for the sfi in effect; a
  failed fetch leaves its field at the default; a flux series whose last record has a
  non-zero number as \<^verbatim>\<open>flux\<close> gives that number rounded; a K series with more than one
  row whose last row has a string as second component that \<^verbatim>\<open>parseInt\<close> reads as a
  non-zero integer gives that integer.
\<close>

theorem C1_solar_data:
  "(failed fluxRes \<and> failed kRes \<longrightarrow>
      solarBlock rt fluxRes kRes = \<lparr>sd_sfi = Num 150, sd_ssn = Num 86, sd_kIndex = Num 2\<rparr>) \<and>
   (fluxStep rt fluxRes (Num 150) = Some sfi \<and> kStep rt kRes (Num 2) = Some kIndex \<longrightarrow>
      solarBlock rt fluxRes kRes =
        \<lparr>sd_sfi = sfi, sd_ssn = ssnFromSfi sfi, sd_kIndex = kIndex\<rparr>) \<and>
   ssnFromSfi (Num s) = Num (max 0 (of_int \<lfloor>(s - 67) / 0.97 + 1 / 2\<rfloor>)) \<and>
   (failed fluxRes \<longrightarrow> fluxStep rt fluxRes (Num 150) = Some (Num 150)) \<and>
   (failed kRes \<longrightarrow> kStep rt kRes (Num 2) = Some (Num 2)) \<and>
   (fluxRes = Fulfilled fluxResponse \<and> r_ok fluxResponse \<and>
    json rt fluxResponse = Some (JArray records) \<and> records \<noteq> [] \<and>
    last records = JObject kvs \<and> map_of kvs ''flux'' = Some (JNumber flux) \<and> flux \<noteq> 0 \<longrightarrow>
      fluxStep rt fluxRes (Num 150) = Some (Num (of_int \<lfloor>flux + 1 / 2\<rfloor>))) \<and>
   (kRes = Fulfilled kResponse \<and> r_ok kResponse \<and>
    json rt kResponse = Some (JArray rows) \<and> length rows > 1 \<and>
    last rows = JArray row \<and> length row > 1 \<and> row ! 1 = JString kp \<and>
    parseInt kp = Some n \<and> n \<noteq> 0 \<longrightarrow>
      kStep rt kRes (Num 2) = Some (Num (of_int n)))"
proof -
  have "solarBlock rt fluxRes kRes = \<lparr>sd_sfi = Num 150, sd_ssn = Num 86, sd_kIndex = Num 2\<rparr>"
    if "failed fluxRes" "failed kRes"
    using that by (simp add: solarBlock_def failed_fluxStep failed_kStep ssn_150)
  moreover have "solarBlock rt fluxRes kRes =
        \<lparr>sd_sfi = sfi, sd_ssn = ssnFromSfi sfi, sd_kIndex = kIndex\<rparr>"
    if "fluxStep rt fluxRes (Num 150) = Some sfi" "kStep rt kRes (Num 2) = Some kIndex"
    using that by (simp add: solarBlock_def)
  moreover have "ssnFromSfi (Num s) = Num (max 0 (of_int \<lfloor>(s - 67) / 0.97 + 1 / 2\<rfloor>))"
    by (simp add: ssnFromSfi_def js_round_def)
  moreover have "fluxStep rt fluxRes (Num 150) = Some (Num (of_int \<lfloor>flux + 1 / 2\<rfloor>))"
    if "fluxRes = Fulfilled fluxResponse" "r_ok fluxResponse"
      "json rt fluxResponse = Some (JArray records)" "records \<noteq> []"
      "last records = JObject kvs" "map_of kvs ''flux'' = Some (JNumber flux)" "flux \<noteq> 0"
    using fluxStep_live [OF that] by (simp add: js_round_def)
  moreover have "kStep rt kRes (Num 2) = Some (Num (of_int n))"
    if "kRes = Fulfilled kResponse" "r_ok kResponse"
      "json rt kResponse = Some (JArray rows)" "length rows > 1"
      "last rows = JArray row" "length row > 1" "row ! 1 = JString kp"
      "parseInt kp = Some n" "n \<noteq> 0"
    using kStep_live [OF that] .
  ultimately show ?thesis
    using failed_fluxStep failed_kStep by blast
qed

lemma parseInt_467: "parseInt ''4.67'' = Some 4"
  by (simp add: parseInt_def startsWith_def is_ws_def is_digit_def digits_val_def digit_val_def
      index_of_def)

lemma parseInt_033: "parseInt ''0.33'' = Some 0"
  by (simp add: parseInt_def startsWith_def is_ws_def is_digit_def digits_val_def digit_val_def
      index_of_def)

lemma json_flux_example:
  "json exampleRuntime \<lparr>r_ok = True, r_text = Some ''[{\"flux\":141.4}]''\<rparr> =
     Some (JArray [JObject [(''flux'', JNumber 141.4)]])"
  by (simp add: json_def exampleRuntime_def)

lemma json_k_example:
  "json exampleRuntime \<lparr>r_ok = True,
      r_text = Some ''[[\"time_tag\",\"Kp\"],[\"2026-01-30 03:00:00.000\",\"4.67\"]]''\<rparr> =
     Some (JArray [JArray [JString ''time_tag'', JString ''Kp''],
                   JArray [JString ''2026-01-30 03:00:00.000'', JString ''4.67'']])"
  by (simp add: json_def exampleRuntime_def)

lemma json_k0_example:
  "json exampleRuntime \<lparr>r_ok = True,
      r_text = Some ''[[\"time_tag\",\"Kp\"],[\"2026-01-30 03:00:00.000\",\"0.33\"]]''\<rparr> =
     Some (JArray [JArray [JString ''time_tag'', JString ''Kp''],
                   JArray [JString ''2026-01-30 03:00:00.000'', JString ''0.33'']])"
  by (simp add: json_def exampleRuntime_def)

theorem C1_solar_data_witness:
  "solarBlock exampleRuntime (Fulfilled \<lparr>r_ok = False, r_text = None\<rparr>) Rejected =
     \<lparr>sd_sfi = Num 150, sd_ssn = Num 86, sd_kIndex = Num 2\<rparr> \<and>
   solarBlock exampleRuntime
     (Fulfilled \<lparr>r_ok = True, r_text = Some ''[{\"flux\":141.4}]''\<rparr>) Rejected =
     \<lparr>sd_sfi = Num 141, sd_ssn = Num 76, sd_kIndex = Num 2\<rparr> \<and>
   solarBlock exampleRuntime Rejected
     (Fulfilled \<lparr>r_ok = True,
        r_text = Some ''[[\"time_tag\",\"Kp\"],[\"2026-01-30 03:00:00.000\",\"4.67\"]]''\<rparr>) =
     \<lparr>sd_sfi = Num 150, sd_ssn = Num 86, sd_kIndex = Num 4\<rparr>"
proof -
  let ?bad = "Fulfilled \<lparr>r_ok = False, r_text = None\<rparr>"
  let ?flux = "\<lparr>r_ok = True, r_text = Some ''[{\"flux\":141.4}]''\<rparr>"
  let ?k = "\<lparr>r_ok = True,
        r_text = Some ''[[\"time_tag\",\"Kp\"],[\"2026-01-30 03:00:00.000\",\"4.67\"]]''\<rparr>"
  have f: "failed ?bad" "failed Rejected" by (simp_all add: failed_def)
  have a: "solarBlock exampleRuntime ?bad Rejected =
     \<lparr>sd_sfi = Num 150, sd_ssn = Num 86, sd_kIndex = Num 2\<rparr>"
    using C1_solar_data [of ?bad Rejected exampleRuntime] f by simp
  have b1: "fluxStep exampleRuntime (Fulfilled ?flux) (Num 150) = Some (Num 141)"
    using C1_solar_data [of "Fulfilled ?flux" Rejected exampleRuntime _ _ _ ?flux
        "[JObject [(''flux'', JNumber 141.4)]]" "[(''flux'', JNumber 141.4)]" "141.4"]
      json_flux_example by simp
  have b2: "kStep exampleRuntime Rejected (Num 2) = Some (Num 2)"
    using C1_solar_data [of Rejected Rejected exampleRuntime] f by simp
  have b: "solarBlock exampleRuntime (Fulfilled ?flux) Rejected =
     \<lparr>sd_sfi = Num 141, sd_ssn = Num 76, sd_kIndex = Num 2\<rparr>"
    using C1_solar_data [of "Fulfilled ?flux" Rejected exampleRuntime "Num 141" "Num 2" 141] b1 b2
    by simp
  have c1: "fluxStep exampleRuntime Rejected (Num 150) = Some (Num 150)"
    using C1_solar_data [of Rejected Rejected exampleRuntime] f by simp
  have c2: "kStep exampleRuntime (Fulfilled ?k) (Num 2) = Some (Num 4)"
    using C1_solar_data [of Rejected "Fulfilled ?k" exampleRuntime _ _ _ _ _ _ _ ?k
        "[JArray [JString ''time_tag'', JString ''Kp''],
          JArray [JString ''2026-01-30 03:00:00.000'', JString ''4.67'']]"
        "[JString ''2026-01-30 03:00:00.000'', JString ''4.67'']" "''4.67''" 4]
      json_k_example parseInt_467 by simp
  have c: "solarBlock exampleRuntime Rejected (Fulfilled ?k) =
     \<lparr>sd_sfi = Num 150, sd_ssn = Num 86, sd_kIndex = Num 4\<rparr>"
    using C1_solar_data [of Rejected "Fulfilled ?k" exampleRuntime "Num 150" "Num 4" 150] c1 c2
    by simp
  from a b c show ?thesis by simp
qed

text \<open>
  Claim C1 as stated fails: with both fetches rejected the sunspot number of the reply is
  86, not the initial value 100.
\<close>

theorem C1_counterexample:
  "solarBlock exampleRuntime Rejected Rejected =
     \<lparr>sd_sfi = Num 150, sd_ssn = Num 86, sd_kIndex = Num 2\<rparr> \<and>
   solarBlock exampleRuntime Rejected Rejected \<noteq>
     \<lparr>sd_sfi = Num 150, sd_ssn = Num 100, sd_kIndex = Num 2\<rparr>"
  by (simp add: solarBlock_def fluxStep_def kStep_def ssn_150)

text \<open>
  Claim C10. The K index of the solar data is never 0; and when the K fetch succeeds and
  the second component of the last element of the series is read by \<^verbatim>\<open>parseInt\<close> as 0
  or as no integer, the K index is the default 2.
\<close>

theorem C10_kIndex_zero_is_default:
  "sd_kIndex (solarBlock rt fluxRes kRes) \<noteq> Num 0 \<and>
   (kRes = Fulfilled response \<and> r_ok response \<and> json rt response = Some data \<and>
    (parseInt (js_String rt (readIndex rt (last_of rt data) (Num 1))) = None \<or>
     parseInt (js_String rt (readIndex rt (last_of rt data) (Num 1))) = Some 0) \<longrightarrow>
      sd_kIndex (solarBlock rt fluxRes kRes) = Num 2)"
proof -
  have "sd_kIndex (solarBlock rt fluxRes kRes) = Num 2"
    if "kRes = Fulfilled response" "r_ok response" "json rt response = Some data"
      "parseInt (js_String rt (readIndex rt (last_of rt data) (Num 1))) = None \<or>
       parseInt (js_String rt (readIndex rt (last_of rt data) (Num 1))) = Some 0"
    using kStep_parse_zero [OF that]
    by (auto simp: solarBlock_def split: option.splits)
  then show ?thesis using solar_kIndex_not_zero by blast
qed

theorem C10_kIndex_zero_is_default_witness:
  "parseInt ''0.33'' = Some 0 \<and>
   sd_kIndex (solarBlock exampleRuntime Rejected
     (Fulfilled \<lparr>r_ok = True,
        r_text = Some ''[[\"time_tag\",\"Kp\"],[\"2026-01-30 03:00:00.000\",\"0.33\"]]''\<rparr>)) = Num 2"
proof -
  let ?k = "\<lparr>r_ok = True,
        r_text = Some ''[[\"time_tag\",\"Kp\"],[\"2026-01-30 03:00:00.000\",\"0.33\"]]''\<rparr>"
  let ?rows = "[JArray [JString ''time_tag'', JString ''Kp''],
                JArray [JString ''2026-01-30 03:00:00.000'', JString ''0.33'']]"
  have l: "last_of exampleRuntime (JArray ?rows) =
             JArray [JString ''2026-01-30 03:00:00.000'', JString ''0.33'']"
    by (simp add: last_of_array)
  have r: "readIndex exampleRuntime (JArray [JString ''2026-01-30 03:00:00.000'', JString ''0.33''])
             (Num 1) = JString ''0.33''"
    by (simp add: readIndex_def is_index_def)
  show ?thesis
    using C10_kIndex_zero_is_default [of exampleRuntime Rejected "Fulfilled ?k" ?k "JArray ?rows"]
      json_k0_example parseInt_033
    by (simp add: l r)
qed

section \<open>The HamQTH parser\<close>

lemma digits_of_small: "n < 10 \<Longrightarrow> digits_of n = [''0123456789'' ! n]"
  by (simp add: digits_of.simps)

lemma digits_of_big:
  "\<not> n < 10 \<Longrightarrow> digits_of n = digits_of (n div 10) @ [''0123456789'' ! (n mod 10)]"
  by (subst digits_of.simps) simp

subsection \<open>Doubles at concrete numbers\<close>

lemma pow2_powr: "pow2 k = 2 powr (of_int k)"
proof (cases "0 \<le> k")
  case True
  then show ?thesis
    by (simp add: pow2_def powr_realpow [symmetric])
next
  case False
  then have k: "real_of_int k = - real (nat (- k))" by simp
  have "2 powr (real_of_int k) = 1 / 2 powr (real (nat (- k)))"
    by (subst k) (simp only: powr_minus_divide)
  also have "\<dots> = 1 / 2 ^ nat (- k)"
    by (simp only: powr_realpow [of 2, simplified])
  finally show ?thesis using False by (simp add: pow2_def)
qed

text \<open>The double for a number whose binade is known, and for one below the normal range.\<close>

lemma to_double_binade:
  assumes "pow2 k \<le> \<bar>x\<bar>" "\<bar>x\<bar> < pow2 (k + 1)" "- 1022 \<le> k"
  shows "to_double x =
     (let v = of_int (round_half_even (\<bar>x\<bar> / pow2 (k - 52))) * pow2 (k - 52)
      in if v \<ge> pow2 1024 then Infinite (x > 0) else Finite (if x < 0 then - v else v))"
proof -
  have "0 < pow2 k" by (simp add: pow2_def)
  with assms(1) have pos: "0 < \<bar>x\<bar>" by linarith
  then have nz: "x \<noteq> 0" by auto
  have "\<lfloor>log 2 \<bar>x\<bar>\<rfloor> = k"
    using assms(1,2) pos by (simp add: floor_log_eq_powr_iff pow2_powr)
  with assms(3) nz show ?thesis by (simp add: to_double_def Let_def max_def)
qed

lemma to_double_tiny:
  assumes "x \<noteq> 0" "\<bar>x\<bar> < pow2 (- 1022)"
  shows "to_double x =
     (let v = of_int (round_half_even (\<bar>x\<bar> / pow2 (- 1074))) * pow2 (- 1074)
      in if v \<ge> pow2 1024 then Infinite (x > 0) else Finite (if x < 0 then - v else v))"
proof -
  have pos: "0 < \<bar>x\<bar>" using assms(1) by simp
  have "\<lfloor>log 2 \<bar>x\<bar>\<rfloor> < - 1022"
  proof -
    have "log 2 \<bar>x\<bar> < - 1022"
      using assms(2) pos by (simp add: pow2_powr log_less_iff)
    then show ?thesis by (simp add: floor_less_iff)
  qed
  then have "max \<lfloor>log 2 \<bar>x\<bar>\<rfloor> (- 1022) = - 1022" by simp
  with assms(1) show ?thesis by (simp add: to_double_def Let_def)
qed

lemmas parse_defs = parseFloat_def startsWith_def is_ws_def is_digit_def digits_val_def
  digit_val_def index_of_def exponent_part_def

lemma double_7022: "to_double 7022 = Finite 7022"
  by (subst to_double_binade [of 12]) (simp_all add: pow2_def round_half_even_def Let_def)

lemma parseFloat_sample: "parseFloat ''7022.0'' = Finite 7022"
  by (simp add: parse_defs double_7022)



text \<open>The double of 7022 / 1000 is \<open>7906069145848906 / 2 ^ 50\<close>, a little below 7.022.\<close>

lemma divide_sample: "js_divide (Finite 7022) 1000 = Finite (7906069145848906 / 2 ^ 50)"
  unfolding js_divide_def parsed.case
  by (subst to_double_binade [of 2]) (simp_all add: pow2_def round_half_even_def Let_def)

lemma toFixed_sample: "toFixed rt 3 (js_divide (Finite 7022) 1000) = ''7.022''"
  by (simp add: divide_sample toFixed_def js_toFixed_def digits_of_small digits_of_big)

text \<open>
  A frequency with a half kHz: 7.0225 is not a double, the double of the quotient is
  below it, and the third decimal stays 2.
\<close>

lemma double_7022_5: "to_double (14045 / 2) = Finite (14045 / 2)"
  by (subst to_double_binade [of 12]) (simp_all add: pow2_def round_half_even_def Let_def)

lemma parseFloat_half: "parseFloat ''7022.5'' = Finite (14045 / 2)"
  using double_7022_5 by (simp add: parse_defs)

lemma divide_half: "js_divide (Finite (14045 / 2)) 1000 = Finite (7906632095802327 / 2 ^ 50)"
  unfolding js_divide_def parsed.case
  by (subst to_double_binade [of 2]) (simp_all add: pow2_def round_half_even_def Let_def)

lemma toFixed_half: "toFixed rt 3 (js_divide (Finite (14045 / 2)) 1000) = ''7.022''"
  by (simp add: divide_half toFixed_def js_toFixed_def digits_of_small digits_of_big)

text \<open>A literal below half of the least positive double reads as zero.\<close>

lemma parseFloat_tiny: "parseFloat ''1e-324'' = Finite 0"
proof -
  have "to_double (1 / 10 ^ 324) = Finite 0"
    by (subst to_double_tiny) (simp_all add: pow2_def round_half_even_def Let_def)
  then show ?thesis by (simp add: parse_defs)
qed

subsection \<open>A line\<close>

lemma split_sample:
  "js_split (CHR ''^'') ''F5PAC^7022.0^KP5/NP3VI^Up 2^0610 2026-01-30^^^NA^40M^Desecheo Island^43'' =
     [''F5PAC'', ''7022.0'', ''KP5/NP3VI'', ''Up 2'', ''0610 2026-01-30'', [], [], ''NA'', ''40M'',
      ''Desecheo Island'', ''43'']"
  by simp

lemma hamqthLoop_eq: "hamqthLoop rt lines spots = spots @ List.map_filter (hamqthLine rt) lines"
  by (induction lines arbitrary: spots) (auto simp: List.map_filter_simps split: option.splits)

lemma hamqthSpots_eq:
  "hamqthSpots rt text = List.map_filter (hamqthLine rt) (take 25 (hamqthLines text))"
  by (simp add: hamqthSpots_def hamqthLoop_eq Let_def List.map_filter_simps)

lemma time_of:
  "substring (substring timeDate 0 4) 0 2 = take 2 timeDate"
  "substring (substring timeDate 0 4) 2 4 = take 2 (drop 2 timeDate)"
  by (simp_all add: substring_def drop_take min_def)

lemma hamqthLine_Some:
  assumes "js_split (CHR ''^'') line = parts" "length parts \<ge> 5"
    "positive (parseFloat (parts ! 1))" "parts ! 2 \<noteq> []"
  shows "hamqthLine rt line =
     Some \<lparr>s_freq = JString (toFixed rt 3 (js_divide (parseFloat (parts ! 1)) 1000)),
           s_call = JString (parts ! 2),
           s_comment = JString (parts ! 3 @
             (if 9 < length parts \<and> parts ! 9 \<noteq> [] then '' '' @ parts ! 9 else [])),
           s_time = JString
             (if length (parts ! 4) \<ge> 4
              then take 2 (parts ! 4) @ '':'' @ take 2 (drop 2 (parts ! 4)) @ ''z''
              else []),
           s_spotter = JString (parts ! 0)\<rparr>"
proof -
  have p: "part parts 0 = parts ! 0" "part parts 1 = parts ! 1" "part parts 2 = parts ! 2"
    "part parts 3 = parts ! 3" "part parts 4 = parts ! 4"
    using assms(2) by (auto simp: part_def)
  have b: "part parts 9 = (if 9 < length parts then parts ! 9 else [])"
    by (simp add: part_def)
  have l: "length (parts ! 4) \<ge> 4 \<Longrightarrow> parts ! 4 \<noteq> []" by auto
  show ?thesis
    unfolding hamqthLine_def assms(1) Let_def p b
    using assms(2) assms(3) assms(4) l by (simp add: time_of)
qed

lemma hamqthLine_None:
  assumes "length (js_split (CHR ''^'') line) < 5 \<or>
           \<not> positive (parseFloat (part (js_split (CHR ''^'') line) 1)) \<or>
           part (js_split (CHR ''^'') line) 2 = []"
  shows "hamqthLine rt line = None"
  using assms by (auto simp: hamqthLine_def Let_def)

text \<open>
  The sample line of the specification. The code reads the text to append from index 9,
  which in this line is the country; the band \<open>40M\<close> is at index 8, as in the format
  that the comment in the source gives
  (\<^verbatim>\<open>spotter^freq^dx_call^comment^time date^^^continent^band^country^id\<close>).
\<close>

lemma hamqthLine_sample:
  "hamqthLine rt ''F5PAC^7022.0^KP5/NP3VI^Up 2^0610 2026-01-30^^^NA^40M^Desecheo Island^43'' =
     Some \<lparr>s_freq = JString ''7.022'', s_call = JString ''KP5/NP3VI'',
           s_comment = JString ''Up 2 Desecheo Island'', s_time = JString ''06:10z'',
           s_spotter = JString ''F5PAC''\<rparr>"
  using hamqthLine_Some [OF split_sample, of rt]
  by (simp add: parseFloat_sample toFixed_sample positive_def)

text \<open>A line with the frequency 7022.5 kHz.\<close>

lemma split_half:
  "js_split (CHR ''^'') ''A^7022.5^CALL^c^0610'' = [''A'', ''7022.5'', ''CALL'', ''c'', ''0610'']"
  by simp

lemma hamqthLine_half:
  "hamqthLine rt ''A^7022.5^CALL^c^0610'' =
     Some \<lparr>s_freq = JString ''7.022'', s_call = JString ''CALL'', s_comment = JString ''c'',
           s_time = JString ''06:10z'', s_spotter = JString ''A''\<rparr>"
  using hamqthLine_Some [OF split_half, of rt]
  by (simp add: parseFloat_half toFixed_half positive_def)

text \<open>A line whose frequency is too small for a double is dropped.\<close>

lemma hamqthLine_tiny: "hamqthLine rt ''A^1e-324^CALL^c^0610'' = None"
  by (rule hamqthLine_None) (simp add: part_def parseFloat_tiny positive_def)






section \<open>The frequency of an emitted spot\<close>




lemma sentinel_spot:
  "dxSummitSpot rt (JObject []) =
     Some \<lparr>s_freq = JString ''0.000'', s_call = JString ''UNKNOWN'', s_comment = JString [],
           s_time = JString [], s_spotter = JString []\<rparr>"
  by (simp add: dxSummitSpot_def nullish_def readProp_def truthy_def js_or_def)

lemma sentinel_heat:
  "dxHeatSpot rt (JObject []) =
     Some \<lparr>s_freq = JString ''0.000'', s_call = JString ''UNKNOWN'', s_comment = JString [],
           s_time = JString [], s_spotter = JString []\<rparr>"
  by (simp add: dxHeatSpot_def nullish_def readProp_def truthy_def js_or_def)


lemma hamqthSpots_sample:
  "hamqthSpots rt ''F5PAC^7022.0^KP5/NP3VI^Up 2^0610 2026-01-30^^^NA^40M^Desecheo Island^43'' =
     [\<lparr>s_freq = JString ''7.022'', s_call = JString ''KP5/NP3VI'',
       s_comment = JString ''Up 2 Desecheo Island'', s_time = JString ''06:10z'',
       s_spotter = JString ''F5PAC''\<rparr>]"
  by (simp add: hamqthSpots_eq hamqthLines_def js_trim_def is_ws_def startsWith_def
      List.map_filter_simps hamqthLine_sample)

lemma hamqthSpots_half:
  "hamqthSpots rt ''A^7022.5^CALL^c^0610'' =
     [\<lparr>s_freq = JString ''7.022'', s_call = JString ''CALL'', s_comment = JString ''c'',
       s_time = JString ''06:10z'', s_spotter = JString ''A''\<rparr>]"
  by (simp add: hamqthSpots_eq hamqthLines_def js_trim_def is_ws_def startsWith_def
      List.map_filter_simps hamqthLine_half)



section \<open>The order of the sources\<close>

lemma those_nonempty: "those xs = Some ys \<Longrightarrow> length ys = length xs"
  by (induction xs arbitrary: ys) (auto split: option.splits)

lemma those_not_Nil:
  assumes "those (map f (take 20 records)) = Some spots" "records \<noteq> []"
  shows "spots \<noteq> []"
  using those_nonempty [OF assms(1)] assms(2) by (cases records) auto

text \<open>When a block returns a list, for each of the three blocks.\<close>

lemma tryHamQTH_iff:
  "tryHamQTH rt res = Some spots \<longleftrightarrow>
     spots \<noteq> [] \<and>
     (\<exists>response body. res = Fulfilled response \<and> r_ok response \<and>
        r_text response = Some body \<and> hamqthSpots rt body = spots)"
  by (auto simp: tryHamQTH_def Let_def split: settled.splits option.splits if_splits)

lemma tryDXSummit_iff:
  "tryDXSummit rt res = Some spots \<longleftrightarrow>
     (\<exists>response body records. res = Fulfilled response \<and> r_ok response \<and>
        r_text response = Some body \<and> jsonParse rt body = Some (JArray records) \<and>
        records \<noteq> [] \<and> those (map (dxSummitSpot rt) (take 20 records)) = Some spots)"
  by (auto simp: tryDXSummit_def split: settled.splits option.splits if_splits jsval.splits)

lemma tryDXHeat_iff:
  "tryDXHeat rt res = Some spots \<longleftrightarrow>
     (\<exists>response body data records. res = Fulfilled response \<and> r_ok response \<and>
        r_text response = Some body \<and> jsonParse rt body = Some data \<and>
        js_or (readProp data ''spots'') data = JArray records \<and>
        records \<noteq> [] \<and> those (map (dxHeatSpot rt) (take 20 records)) = Some spots)"
proof -
  have n: "js_or (readProp data ''spots'') data = JArray records \<Longrightarrow> \<not> nullish data"
    for data records
    by (auto simp: nullish_def js_or_def readProp_def truthy_def)
  show ?thesis
    using n
    by (auto simp: tryDXHeat_def split: settled.splits option.splits if_splits jsval.splits)
qed

lemma tryDXSummit_Some:
  assumes "tryDXSummit rt res = Some spots"
  shows "spots \<noteq> [] \<and> \<not> failed res"
  using assms those_not_Nil [of "dxSummitSpot rt" _ spots]
  by (auto simp: tryDXSummit_iff failed_def)

lemma tryDXHeat_Some:
  assumes "tryDXHeat rt res = Some spots"
  shows "spots \<noteq> [] \<and> \<not> failed res"
  using assms those_not_Nil [of "dxHeatSpot rt" _ spots]
  by (auto simp: tryDXHeat_iff failed_def)

lemma tryHamQTH_Some:
  assumes "tryHamQTH rt res = Some spots"
  shows "spots \<noteq> [] \<and> \<not> failed res"
  using assms by (auto simp: tryHamQTH_iff failed_def)

lemma failed_try:
  assumes "failed res"
  shows "tryHamQTH rt res = None" "tryDXSummit rt res = None" "tryDXHeat rt res = None"
  using assms
  by (auto simp: failed_def tryHamQTH_def tryDXSummit_def tryDXHeat_def split: settled.splits)

lemma empty_try:
  assumes "res = Fulfilled response" "r_text response = Some body"
  shows "hamqthSpots rt body = [] \<Longrightarrow> tryHamQTH rt res = None"
    and "jsonParse rt body = None \<or> jsonParse rt body = Some (JArray []) \<Longrightarrow>
         tryDXSummit rt res = None"
    and "jsonParse rt body = None \<or> jsonParse rt body = Some (JArray []) \<Longrightarrow>
         tryDXHeat rt res = None"
  using assms
  by (auto simp: tryHamQTH_def tryDXSummit_def tryDXHeat_def nullish_def readProp_def js_or_def
      truthy_def)

text \<open>
  Claim C2. The route fetches HamQTH, then DX Summit, then DXHeat. A source whose fetch is
  fulfilled with an \<^verbatim>\<open>ok\<close> response and whose body parses to a list that is not empty
  ends the route, when every source before it has given no list: the reply is that list
  and the sources after it are not fetched. A block returns a list in these cases only,
  so a source whose fetch fails, whose body does not parse, or whose list is empty is
  passed over. When no source returns a list, all three have been fetched and the reply
  is the empty list.
\<close>

theorem C2_first_success_wins:
  "(fetch HamQTH = Fulfilled response \<and> r_ok response \<and> r_text response = Some body \<and>
    hamqthSpots rt body \<noteq> [] \<longrightarrow>
      dxclusterSpots rt fetch = ([HamQTH], hamqthSpots rt body)) \<and>
   (tryHamQTH rt (fetch HamQTH) = None \<and>
    fetch DXSummit = Fulfilled response \<and> r_ok response \<and> r_text response = Some body \<and>
    jsonParse rt body = Some (JArray records) \<and> records \<noteq> [] \<and>
    those (map (dxSummitSpot rt) (take 20 records)) = Some spots \<longrightarrow>
      dxclusterSpots rt fetch = ([HamQTH, DXSummit], spots)) \<and>
   (tryHamQTH rt (fetch HamQTH) = None \<and> tryDXSummit rt (fetch DXSummit) = None \<and>
    fetch DXHeat = Fulfilled response \<and> r_ok response \<and> r_text response = Some body \<and>
    jsonParse rt body = Some data \<and> js_or (readProp data ''spots'') data = JArray records \<and>
    records \<noteq> [] \<and> those (map (dxHeatSpot rt) (take 20 records)) = Some spots \<longrightarrow>
      dxclusterSpots rt fetch = ([HamQTH, DXSummit, DXHeat], spots)) \<and>
   (tryHamQTH rt (fetch HamQTH) = None \<and> tryDXSummit rt (fetch DXSummit) = None \<and>
    tryDXHeat rt (fetch DXHeat) = None \<longrightarrow>
      dxclusterSpots rt fetch = ([HamQTH, DXSummit, DXHeat], [])) \<and>
   (tryHamQTH rt res = Some spots \<longleftrightarrow>
      spots \<noteq> [] \<and>
      (\<exists>response body. res = Fulfilled response \<and> r_ok response \<and>
         r_text response = Some body \<and> hamqthSpots rt body = spots)) \<and>
   (tryDXSummit rt res = Some spots \<longleftrightarrow>
      (\<exists>response body records. res = Fulfilled response \<and> r_ok response \<and>
         r_text response = Some body \<and> jsonParse rt body = Some (JArray records) \<and>
         records \<noteq> [] \<and> those (map (dxSummitSpot rt) (take 20 records)) = Some spots)) \<and>
   (tryDXHeat rt res = Some spots \<longleftrightarrow>
      (\<exists>response body data records. res = Fulfilled response \<and> r_ok response \<and>
         r_text response = Some body \<and> jsonParse rt body = Some data \<and>
         js_or (readProp data ''spots'') data = JArray records \<and>
         records \<noteq> [] \<and> those (map (dxHeatSpot rt) (take 20 records)) = Some spots)) \<and>
   (tryHamQTH rt (fetch HamQTH) = Some spots \<longrightarrow>
      dxclusterSpots rt fetch = ([HamQTH], spots) \<and> spots \<noteq> [] \<and> \<not> failed (fetch HamQTH)) \<and>
   (tryHamQTH rt (fetch HamQTH) = None \<and> tryDXSummit rt (fetch DXSummit) = Some spots \<longrightarrow>
      dxclusterSpots rt fetch = ([HamQTH, DXSummit], spots) \<and> spots \<noteq> [] \<and>
      \<not> failed (fetch DXSummit)) \<and>
   (tryHamQTH rt (fetch HamQTH) = None \<and> tryDXSummit rt (fetch DXSummit) = None \<and>
    tryDXHeat rt (fetch DXHeat) = Some spots \<longrightarrow>
      dxclusterSpots rt fetch = ([HamQTH, DXSummit, DXHeat], spots) \<and> spots \<noteq> [] \<and>
      \<not> failed (fetch DXHeat)) \<and>
   (failed res \<longrightarrow>
      tryHamQTH rt res = None \<and> tryDXSummit rt res = None \<and> tryDXHeat rt res = None) \<and>
   (res = Fulfilled response \<and> r_text response = Some body \<and> hamqthSpots rt body = [] \<longrightarrow>
      tryHamQTH rt res = None) \<and>
   (res = Fulfilled response \<and> r_text response = Some body \<and>
    (jsonParse rt body = None \<or> jsonParse rt body = Some (JArray [])) \<longrightarrow>
      tryDXSummit rt res = None \<and> tryDXHeat rt res = None)"
proof -
  have p1: "fetch HamQTH = Fulfilled response \<and> r_ok response \<and> r_text response = Some body \<and>
    hamqthSpots rt body \<noteq> [] \<longrightarrow>
      dxclusterSpots rt fetch = ([HamQTH], hamqthSpots rt body)"
  proof
    assume a: "fetch HamQTH = Fulfilled response \<and> r_ok response \<and>
      r_text response = Some body \<and> hamqthSpots rt body \<noteq> []"
    then have "tryHamQTH rt (fetch HamQTH) = Some (hamqthSpots rt body)"
      unfolding tryHamQTH_iff by blast
    then show "dxclusterSpots rt fetch = ([HamQTH], hamqthSpots rt body)"
      by (simp add: dxclusterSpots_def)
  qed
  have p2: "tryHamQTH rt (fetch HamQTH) = None \<and>
    fetch DXSummit = Fulfilled response \<and> r_ok response \<and> r_text response = Some body \<and>
    jsonParse rt body = Some (JArray records) \<and> records \<noteq> [] \<and>
    those (map (dxSummitSpot rt) (take 20 records)) = Some spots \<longrightarrow>
      dxclusterSpots rt fetch = ([HamQTH, DXSummit], spots)"
  proof
    assume a: "tryHamQTH rt (fetch HamQTH) = None \<and>
      fetch DXSummit = Fulfilled response \<and> r_ok response \<and> r_text response = Some body \<and>
      jsonParse rt body = Some (JArray records) \<and> records \<noteq> [] \<and>
      those (map (dxSummitSpot rt) (take 20 records)) = Some spots"
    then have "tryDXSummit rt (fetch DXSummit) = Some spots"
      unfolding tryDXSummit_iff by blast
    with a show "dxclusterSpots rt fetch = ([HamQTH, DXSummit], spots)"
      by (simp add: dxclusterSpots_def)
  qed
  have p3: "tryHamQTH rt (fetch HamQTH) = None \<and> tryDXSummit rt (fetch DXSummit) = None \<and>
    fetch DXHeat = Fulfilled response \<and> r_ok response \<and> r_text response = Some body \<and>
    jsonParse rt body = Some data \<and> js_or (readProp data ''spots'') data = JArray records \<and>
    records \<noteq> [] \<and> those (map (dxHeatSpot rt) (take 20 records)) = Some spots \<longrightarrow>
      dxclusterSpots rt fetch = ([HamQTH, DXSummit, DXHeat], spots)"
  proof
    assume a: "tryHamQTH rt (fetch HamQTH) = None \<and> tryDXSummit rt (fetch DXSummit) = None \<and>
      fetch DXHeat = Fulfilled response \<and> r_ok response \<and> r_text response = Some body \<and>
      jsonParse rt body = Some data \<and> js_or (readProp data ''spots'') data = JArray records \<and>
      records \<noteq> [] \<and> those (map (dxHeatSpot rt) (take 20 records)) = Some spots"
    then have "tryDXHeat rt (fetch DXHeat) = Some spots"
      unfolding tryDXHeat_iff by blast
    with a show "dxclusterSpots rt fetch = ([HamQTH, DXSummit, DXHeat], spots)"
      by (simp add: dxclusterSpots_def)
  qed
  have c1: "tryHamQTH rt (fetch HamQTH) = Some spots \<longrightarrow>
      dxclusterSpots rt fetch = ([HamQTH], spots) \<and> spots \<noteq> [] \<and> \<not> failed (fetch HamQTH)"
  proof
    assume a: "tryHamQTH rt (fetch HamQTH) = Some spots"
    then show "dxclusterSpots rt fetch = ([HamQTH], spots) \<and> spots \<noteq> [] \<and> \<not> failed (fetch HamQTH)"
      using tryHamQTH_Some [OF a] by (simp add: dxclusterSpots_def)
  qed
  have c2: "tryHamQTH rt (fetch HamQTH) = None \<and> tryDXSummit rt (fetch DXSummit) = Some spots \<longrightarrow>
      dxclusterSpots rt fetch = ([HamQTH, DXSummit], spots) \<and> spots \<noteq> [] \<and>
      \<not> failed (fetch DXSummit)"
  proof
    assume a: "tryHamQTH rt (fetch HamQTH) = None \<and> tryDXSummit rt (fetch DXSummit) = Some spots"
    then have b: "tryDXSummit rt (fetch DXSummit) = Some spots" by simp
    show "dxclusterSpots rt fetch = ([HamQTH, DXSummit], spots) \<and> spots \<noteq> [] \<and>
      \<not> failed (fetch DXSummit)"
      using a tryDXSummit_Some [OF b] by (simp add: dxclusterSpots_def)
  qed
  have c3: "tryHamQTH rt (fetch HamQTH) = None \<and> tryDXSummit rt (fetch DXSummit) = None \<and>
    tryDXHeat rt (fetch DXHeat) = Some spots \<longrightarrow>
      dxclusterSpots rt fetch = ([HamQTH, DXSummit, DXHeat], spots) \<and> spots \<noteq> [] \<and>
      \<not> failed (fetch DXHeat)"
  proof
    assume a: "tryHamQTH rt (fetch HamQTH) = None \<and> tryDXSummit rt (fetch DXSummit) = None \<and>
      tryDXHeat rt (fetch DXHeat) = Some spots"
    then have b: "tryDXHeat rt (fetch DXHeat) = Some spots" by simp
    show "dxclusterSpots rt fetch = ([HamQTH, DXSummit, DXHeat], spots) \<and> spots \<noteq> [] \<and>
      \<not> failed (fetch DXHeat)"
      using a tryDXHeat_Some [OF b] by (simp add: dxclusterSpots_def)
  qed
  have c4: "tryHamQTH rt (fetch HamQTH) = None \<and> tryDXSummit rt (fetch DXSummit) = None \<and>
    tryDXHeat rt (fetch DXHeat) = None \<longrightarrow>
      dxclusterSpots rt fetch = ([HamQTH, DXSummit, DXHeat], [])"
    by (simp add: dxclusterSpots_def)
  have c5: "failed res \<longrightarrow>
      tryHamQTH rt res = None \<and> tryDXSummit rt res = None \<and> tryDXHeat rt res = None"
    using failed_try [of res rt] by simp
  have c6: "res = Fulfilled response \<and> r_text response = Some body \<and> hamqthSpots rt body = [] \<longrightarrow>
      tryHamQTH rt res = None"
    using empty_try(1) [of res response body rt] by simp
  have c7: "res = Fulfilled response \<and> r_text response = Some body \<and>
    (jsonParse rt body = None \<or> jsonParse rt body = Some (JArray [])) \<longrightarrow>
      tryDXSummit rt res = None \<and> tryDXHeat rt res = None"
    using empty_try(2,3) [of res response body rt] by simp
  show ?thesis
    by (intro conjI) (fact p1, fact p2, fact p3, fact c4, fact tryHamQTH_iff,
        fact tryDXSummit_iff, fact tryDXHeat_iff, fact c1, fact c2, fact c3, fact c5, fact c6,
        fact c7)
qed

theorem C2_first_success_wins_witness:
  "dxclusterSpots exampleRuntime
      (\<lambda>src. if src = HamQTH
             then Fulfilled \<lparr>r_ok = True, r_text = Some ''A^7022.5^CALL^c^0610''\<rparr>
             else Rejected) =
     ([HamQTH],
      [\<lparr>s_freq = JString ''7.022'', s_call = JString ''CALL'', s_comment = JString ''c'',
        s_time = JString ''06:10z'', s_spotter = JString ''A''\<rparr>]) \<and>
   dxclusterSpots exampleRuntime
      (\<lambda>src. if src = DXSummit then Fulfilled \<lparr>r_ok = True, r_text = Some ''[{}]''\<rparr>
             else Rejected) =
     ([HamQTH, DXSummit],
      [\<lparr>s_freq = JString ''0.000'', s_call = JString ''UNKNOWN'', s_comment = JString [],
        s_time = JString [], s_spotter = JString []\<rparr>]) \<and>
   dxclusterSpots exampleRuntime
      (\<lambda>src. if src = HamQTH then Fulfilled \<lparr>r_ok = True, r_text = Some ''#''\<rparr>
             else if src = DXSummit then Fulfilled \<lparr>r_ok = True, r_text = Some ''[]''\<rparr>
             else Fulfilled \<lparr>r_ok = True, r_text = Some ''[{}]''\<rparr>) =
     ([HamQTH, DXSummit, DXHeat],
      [\<lparr>s_freq = JString ''0.000'', s_call = JString ''UNKNOWN'', s_comment = JString [],
        s_time = JString [], s_spotter = JString []\<rparr>]) \<and>
   dxclusterSpots exampleRuntime
      (\<lambda>src. if src = HamQTH then Fulfilled \<lparr>r_ok = False, r_text = None\<rparr>
             else if src = DXSummit then Fulfilled \<lparr>r_ok = True, r_text = Some ''[]''\<rparr>
             else Rejected) =
     ([HamQTH, DXSummit, DXHeat], [])"
proof -
  let ?f0 = "\<lambda>src. if src = HamQTH
             then Fulfilled \<lparr>r_ok = True, r_text = Some ''A^7022.5^CALL^c^0610''\<rparr>
             else Rejected"
  let ?f1 = "\<lambda>src. if src = DXSummit then Fulfilled \<lparr>r_ok = True, r_text = Some ''[{}]''\<rparr>
             else Rejected"
  let ?f3 = "\<lambda>src. if src = HamQTH then Fulfilled \<lparr>r_ok = True, r_text = Some ''#''\<rparr>
             else if src = DXSummit then Fulfilled \<lparr>r_ok = True, r_text = Some ''[]''\<rparr>
             else Fulfilled \<lparr>r_ok = True, r_text = Some ''[{}]''\<rparr>"
  let ?f2 = "\<lambda>src. if src = HamQTH then Fulfilled \<lparr>r_ok = False, r_text = None\<rparr>
             else if src = DXSummit then Fulfilled \<lparr>r_ok = True, r_text = Some ''[]''\<rparr>
             else Rejected"
  let ?s = "\<lparr>s_freq = JString ''0.000'', s_call = JString ''UNKNOWN'', s_comment = JString [],
        s_time = JString [], s_spotter = JString []\<rparr>"
  have f: "failed Rejected" "failed (Fulfilled \<lparr>r_ok = False, r_text = None\<rparr>)"
    by (simp_all add: failed_def)
  have j: "jsonParse exampleRuntime ''[{}]'' = Some (JArray [JObject []])"
    "jsonParse exampleRuntime ''[]'' = Some (JArray [])"
    by (simp_all add: exampleRuntime_def)
  have o: "js_or (readProp (JArray [JObject []]) ''spots'') (JArray [JObject []]) =
      JArray [JObject []]"
    by (simp add: js_or_def readProp_def truthy_def)
  have e: "hamqthSpots exampleRuntime ''#'' = []"
    by (simp add: hamqthSpots_eq hamqthLines_def js_trim_def is_ws_def startsWith_def
        List.map_filter_simps)
  have z: "dxclusterSpots exampleRuntime ?f0 =
      ([HamQTH], hamqthSpots exampleRuntime ''A^7022.5^CALL^c^0610'')"
    using C2_first_success_wins [where fetch = ?f0 and rt = exampleRuntime
        and response = "\<lparr>r_ok = True, r_text = Some ''A^7022.5^CALL^c^0610''\<rparr>"
        and body = "''A^7022.5^CALL^c^0610''"]
    by (simp add: hamqthSpots_half)
  have h1: "tryHamQTH exampleRuntime Rejected = None"
    using C2_first_success_wins [where rt = exampleRuntime and res = Rejected] f by simp
  have a: "dxclusterSpots exampleRuntime ?f1 = ([HamQTH, DXSummit], [?s])"
    using C2_first_success_wins [where fetch = ?f1 and rt = exampleRuntime
        and response = "\<lparr>r_ok = True, r_text = Some ''[{}]''\<rparr>" and body = "''[{}]''"
        and records = "[JObject []]" and spots = "[?s]"] h1 j
    by (simp add: sentinel_spot)
  have h3: "tryHamQTH exampleRuntime (Fulfilled \<lparr>r_ok = True, r_text = Some ''#''\<rparr>) = None"
    using C2_first_success_wins [where rt = exampleRuntime
        and res = "Fulfilled \<lparr>r_ok = True, r_text = Some ''#''\<rparr>"
        and response = "\<lparr>r_ok = True, r_text = Some ''#''\<rparr>" and body = "''#''"] e
    by simp
  have d2: "tryDXSummit exampleRuntime (Fulfilled \<lparr>r_ok = True, r_text = Some ''[]''\<rparr>) = None"
    using C2_first_success_wins [where rt = exampleRuntime
        and res = "Fulfilled \<lparr>r_ok = True, r_text = Some ''[]''\<rparr>"
        and response = "\<lparr>r_ok = True, r_text = Some ''[]''\<rparr>" and body = "''[]''"] j
    by simp
  have c: "dxclusterSpots exampleRuntime ?f3 = ([HamQTH, DXSummit, DXHeat], [?s])"
    using C2_first_success_wins [where fetch = ?f3 and rt = exampleRuntime
        and response = "\<lparr>r_ok = True, r_text = Some ''[{}]''\<rparr>" and body = "''[{}]''"
        and data = "JArray [JObject []]" and records = "[JObject []]" and spots = "[?s]"]
      h3 d2 j o
    by (simp add: sentinel_heat)
  have h2: "tryHamQTH exampleRuntime (Fulfilled \<lparr>r_ok = False, r_text = None\<rparr>) = None"
    using C2_first_success_wins [where rt = exampleRuntime
        and res = "Fulfilled \<lparr>r_ok = False, r_text = None\<rparr>"] f
    by simp
  have e2: "tryDXHeat exampleRuntime Rejected = None"
    using C2_first_success_wins [where rt = exampleRuntime and res = Rejected] f by simp
  have b: "dxclusterSpots exampleRuntime ?f2 = ([HamQTH, DXSummit, DXHeat], [])"
    using C2_first_success_wins [where fetch = ?f2 and rt = exampleRuntime] h2 d2 e2 by simp
  from z a c b show ?thesis by (simp add: hamqthSpots_half)
qed

end
